theory Spec2Isabelle
  imports Main "HOL-Library.Sublist"
begin

section \<open>JavaScript values used by the AI router\<close>

text \<open>
  A JavaScript string is modelled as a \<open>string\<close>; a \<open>char\<close> stands for a UTF-16 code
  unit below 256 (the Latin-1 range), which is where every literal of the source lives.
  \<open>undefined\<close> and \<open>null\<close> of a string-valued expression are \<open>None\<close>.
\<close>

text \<open>\<open>String.prototype.includes\<close>: the argument occurs as a contiguous substring.\<close>

definition str_includes :: "string \<Rightarrow> string \<Rightarrow> bool" where
  "str_includes s sub = sublist sub s"

text \<open>
  \<open>String.prototype.trim\<close> strips white space and line terminators from both ends.
  Below 256 these are TAB, LF, VT, FF, CR, SPACE and NO-BREAK SPACE.
\<close>

definition is_ws :: "char \<Rightarrow> bool" where
  "is_ws c = (c = CHR 0x09 \<or> c = CHR 0x0A \<or> c = CHR 0x0B \<or> c = CHR 0x0C \<or>
              c = CHR 0x0D \<or> c = CHR 0x20 \<or> c = CHR 0xA0)"

definition trim :: "string \<Rightarrow> string" where
  "trim s = rev (dropWhile is_ws (rev (dropWhile is_ws s)))"

text \<open>
  \<open>String.prototype.toLowerCase\<close> on code units below 256: A-Z and the Latin-1 capitals
  (0xC0-0xDE without the multiplication sign 0xD7) move up by 32.
\<close>

definition lower_char :: "char \<Rightarrow> char" where
  "lower_char c =
     (let n = (of_char c :: nat) in
      if (65 \<le> n \<and> n \<le> 90) \<or> (192 \<le> n \<and> n \<le> 222 \<and> n \<noteq> 215)
      then char_of (n + 32) else c)"

definition toLowerCase :: "string \<Rightarrow> string" where
  "toLowerCase s = map lower_char s"

text \<open>Truthiness of a string-valued expression that may be \<open>undefined\<close> or \<open>null\<close>.\<close>

fun truthy :: "string option \<Rightarrow> bool" where
  "truthy None = False"
| "truthy (Some s) = (s \<noteq> [])"

text \<open>\<open>a || b\<close> on such expressions.\<close>

definition js_or :: "string option \<Rightarrow> string option \<Rightarrow> string option" where
  "js_or a b = (if truthy a then a else b)"

text \<open>\<open>a || 'literal'\<close>: the right operand is a string, so is the result.\<close>

definition or_else :: "string option \<Rightarrow> string \<Rightarrow> string" where
  "or_else a d = (case a of Some s \<Rightarrow> (if s \<noteq> [] then s else d) | None \<Rightarrow> d)"

text \<open>
  A thrown value is known to the router only through its \<open>message\<close> property, which is
  a string for an \<open>Error\<close> and may be \<open>undefined\<close> for anything else a library throws.
\<close>

datatype js_error = JsError (message: "string option")

text \<open>\<open>new Error(msg)\<close>\<close>

definition new_Error :: "string \<Rightarrow> js_error" where
  "new_Error msg = JsError (Some msg)"

text \<open>The object every adapter returns: \<open>{ text, model, provider }\<close>.\<close>

record gen_result =
  result_text :: string
  model :: string
  provider :: string

text \<open>
  An adapter either throws or returns a result; beside that the model keeps the list
  of model names for which it issued a request to the vendor, in order.
\<close>

type_synonym adapter_run = "(js_error + gen_result) \<times> string list"

section \<open>The vendors\<close>

text \<open>
  What the vendor does on one request is an input of the model. Each function takes the
  API key, the model name and the prompt of the request, and tells how the \<open>try\<close> block
  of the adapter fares with them.

  Groq: something in the block throws (\<open>groq.chat.completions.create\<close> rejects, or the
  completion cannot be read), or the call resolves to a completion of which the adapter
  reads \<open>choices[0]?.message?.content\<close>.

  Gemini: something in the block throws (\<open>generateContent\<close>, \<open>result.response\<close> or
  \<open>response.text()\<close>), or \<open>response.text()\<close> returns a string.

  OpenAI: \<open>fetch\<close> rejects or the body cannot be read; or the response is not ok, with its
  status and the \<open>error.error?.code\<close> and \<open>error.error?.message\<close> of its body; or it is ok
  and the adapter reads \<open>data.choices[0]?.message?.content\<close>. The adapter reads the body
  of a response that is not ok before it looks at the status, so such a response with
  a body that cannot be read is of the first kind, whatever its status.

  Claude: \<open>fetch\<close> rejects or the body cannot be read; or the response is not ok, with the
  \<open>error.error?.message\<close> of its body; or it is ok and the adapter reads
  \<open>data.content[0]?.text\<close>.

  Within one call of an adapter every model is asked at most once, and within one
  dispatch every adapter is called at most once, so a function of the request is enough.
\<close>

datatype groq_reply = GroqRejects js_error | GroqChat "string option"

datatype gemini_reply = GeminiThrows js_error | GeminiText string

datatype openai_reply =
    OpenaiThrows js_error
  | OpenaiNotOk nat "string option" "string option"
  | OpenaiOk "string option"

datatype claude_reply =
    ClaudeThrows js_error
  | ClaudeNotOk "string option"
  | ClaudeOk "string option"

record vendors =
  groq_create :: "string \<Rightarrow> string \<Rightarrow> string \<Rightarrow> groq_reply"
  gemini_generate :: "string \<Rightarrow> string \<Rightarrow> string \<Rightarrow> gemini_reply"
  openai_fetch :: "string \<Rightarrow> string \<Rightarrow> string \<Rightarrow> openai_reply"
  claude_fetch :: "string \<Rightarrow> string \<Rightarrow> claude_reply"

section \<open>The provider adapters\<close>

subsection \<open>\<open>aiProviders.groq\<close>\<close>

definition groq_modelsToTry :: "string list" where
  "groq_modelsToTry =
     [''llama-3.1-8b-instant'', ''llama-3.1-70b-versatile'', ''llama-3-8b-8192'',
      ''mixtral-8x7b-32768'']"

text \<open>
  \<open>err.message?.includes('model') || err.message?.includes('404')\<close>: an \<open>undefined\<close>
  message makes both operands \<open>undefined\<close>.
\<close>

definition groq_model_unavailable :: "js_error \<Rightarrow> bool" where
  "groq_model_unavailable err =
     (case message err of
        None \<Rightarrow> False
      | Some m \<Rightarrow> str_includes m ''model'' \<or> str_includes m ''404'')"

text \<open>
  An iteration that ends in \<open>continue\<close>, or falls through the end of the loop body,
  leaves the rest to the later iterations; the request it issued stays on record.
\<close>

definition attempted :: "string \<Rightarrow> adapter_run \<Rightarrow> adapter_run" where
  "attempted modelName run = (fst run, modelName # snd run)"

text \<open>The \<open>for\<close> loop over the model names, and the \<open>throw\<close> after it.\<close>

fun groq_loop :: "(string \<Rightarrow> groq_reply) \<Rightarrow> string list \<Rightarrow> adapter_run" where
  "groq_loop create [] = (Inl (new_Error ''All Groq models failed''), [])"
| "groq_loop create (modelName # rest) =
     (case create modelName of
        GroqChat content \<Rightarrow>
          (case content of
             Some t \<Rightarrow>
               if t \<noteq> [] \<and> trim t \<noteq> []
               then (Inr \<lparr>result_text = trim t, model = modelName, provider = ''groq''\<rparr>,
                     [modelName])
               else attempted modelName (groq_loop create rest)
           | None \<Rightarrow> attempted modelName (groq_loop create rest))
      | GroqRejects err \<Rightarrow>
          if groq_model_unavailable err
          then attempted modelName (groq_loop create rest)
          else (Inl err, [modelName]))"

definition groq :: "vendors \<Rightarrow> string \<Rightarrow> string \<Rightarrow> adapter_run" where
  "groq v prompt apiKey =
     groq_loop (\<lambda>modelName. groq_create v apiKey modelName prompt) groq_modelsToTry"

subsection \<open>\<open>aiProviders.gemini\<close>\<close>

definition gemini_modelsToTry :: "string list" where
  "gemini_modelsToTry =
     [''gemini-2.0-flash-exp'', ''gemini-1.5-flash-latest'', ''gemini-1.5-pro-latest'',
      ''gemini-1.5-flash'', ''gemini-1.5-pro'', ''gemini-pro'']"

text \<open>Here the \<open>catch\<close> block is a bare \<open>continue\<close>.\<close>

fun gemini_loop :: "(string \<Rightarrow> gemini_reply) \<Rightarrow> string list \<Rightarrow> adapter_run" where
  "gemini_loop generateContent [] = (Inl (new_Error ''All Gemini models failed''), [])"
| "gemini_loop generateContent (modelName # rest) =
     (case generateContent modelName of
        GeminiText t \<Rightarrow>
          if t \<noteq> [] \<and> trim t \<noteq> []
          then (Inr \<lparr>result_text = trim t, model = modelName, provider = ''gemini''\<rparr>,
                [modelName])
          else attempted modelName (gemini_loop generateContent rest)
      | GeminiThrows err \<Rightarrow> attempted modelName (gemini_loop generateContent rest))"

definition gemini :: "vendors \<Rightarrow> string \<Rightarrow> string \<Rightarrow> adapter_run" where
  "gemini v prompt apiKey =
     gemini_loop (\<lambda>modelName. gemini_generate v apiKey modelName prompt) gemini_modelsToTry"

subsection \<open>\<open>aiProviders.openai\<close>\<close>

definition openai_modelsToTry :: "string list" where
  "openai_modelsToTry = [''gpt-4'', ''gpt-3.5-turbo'', ''gpt-4-turbo-preview'']"

text \<open>
  The \<open>catch\<close> block: \<open>None\<close> is its \<open>continue\<close>, \<open>Some e\<close> is a \<open>throw\<close> of \<open>e\<close>.
  It calls \<open>err.message.includes\<close> without \<open>?.\<close>, which is a TypeError of its own when
  the message is \<open>undefined\<close>.
\<close>

definition openai_catch :: "js_error \<Rightarrow> js_error option" where
  "openai_catch err =
     (case message err of
        None \<Rightarrow>
          Some (new_Error ''Cannot read properties of undefined (reading 'includes')'')
      | Some m \<Rightarrow>
          if \<not> str_includes m ''model_not_found'' \<and> \<not> str_includes m ''404''
          then Some err else None)"

text \<open>
  The \<open>throw new Error(...)\<close> for a response that is not ok stands inside the \<open>try\<close>,
  so it goes through the same \<open>catch\<close> block as a rejected \<open>fetch\<close>.
\<close>

fun openai_loop :: "(string \<Rightarrow> openai_reply) \<Rightarrow> string list \<Rightarrow> adapter_run" where
  "openai_loop fetch [] = (Inl (new_Error ''All OpenAI models failed''), [])"
| "openai_loop fetch (modelName # rest) =
     (case fetch modelName of
        OpenaiNotOk status code msg \<Rightarrow>
          if code = Some ''model_not_found'' \<or> status = 404
          then attempted modelName (openai_loop fetch rest)
          else (case openai_catch (new_Error (or_else msg ''OpenAI API error'')) of
                  Some e \<Rightarrow> (Inl e, [modelName])
                | None \<Rightarrow> attempted modelName (openai_loop fetch rest))
      | OpenaiOk content \<Rightarrow>
          (case content of
             Some t \<Rightarrow>
               if t \<noteq> [] \<and> trim t \<noteq> []
               then (Inr \<lparr>result_text = trim t, model = modelName, provider = ''openai''\<rparr>,
                     [modelName])
               else attempted modelName (openai_loop fetch rest)
           | None \<Rightarrow> attempted modelName (openai_loop fetch rest))
      | OpenaiThrows err \<Rightarrow>
          (case openai_catch err of
             Some e \<Rightarrow> (Inl e, [modelName])
           | None \<Rightarrow> attempted modelName (openai_loop fetch rest)))"

definition openai :: "vendors \<Rightarrow> string \<Rightarrow> string \<Rightarrow> adapter_run" where
  "openai v prompt apiKey =
     openai_loop (\<lambda>modelName. openai_fetch v apiKey modelName prompt) openai_modelsToTry"

subsection \<open>\<open>aiProviders.claude\<close>\<close>

text \<open>One request, one fixed model; the only test on the text is \<open>!text\<close>.\<close>

definition claude :: "vendors \<Rightarrow> string \<Rightarrow> string \<Rightarrow> adapter_run" where
  "claude v prompt apiKey =
     (case claude_fetch v apiKey prompt of
        ClaudeThrows err \<Rightarrow> (Inl err, [''claude-3-haiku-20240307''])
      | ClaudeNotOk msg \<Rightarrow>
          (Inl (new_Error (or_else msg ''Claude API error'')), [''claude-3-haiku-20240307''])
      | ClaudeOk content \<Rightarrow>
          (case content of
             None \<Rightarrow> (Inl (new_Error ''No response from Claude''), [''claude-3-haiku-20240307''])
           | Some t \<Rightarrow>
               if t = []
               then (Inl (new_Error ''No response from Claude''), [''claude-3-haiku-20240307''])
               else (Inr \<lparr>result_text = trim t, model = ''claude-3-haiku-20240307'',
                          provider = ''claude''\<rparr>,
                     [''claude-3-haiku-20240307''])))"

text \<open>The object \<open>aiProviders\<close>, read by name.\<close>

definition aiProviders :: "string \<Rightarrow> (vendors \<Rightarrow> string \<Rightarrow> string \<Rightarrow> adapter_run) option" where
  "aiProviders providerName =
     (if providerName = ''groq'' then Some groq
      else if providerName = ''gemini'' then Some gemini
      else if providerName = ''openai'' then Some openai
      else if providerName = ''claude'' then Some claude
      else None)"

section \<open>The endpoint \<open>POST /generate\<close>\<close>

text \<open>
  \<open>req.body\<close> is the object the JSON body parser of the server leaves there; the handler
  reads its \<open>prompt\<close> and \<open>provider\<close>. Such a value is absent (\<open>undefined\<close>), \<open>null\<close>, a
  boolean, a number (of which only being zero matters here), a string, or an array or
  object. The log lines of the handler are left out, but for the \<open>prompt.substring\<close> in
  one of them, which can throw.
\<close>

datatype jsval = JUndefined | JNull | JBool bool | JNum int | JStr string | JObject

fun js_truthy :: "jsval \<Rightarrow> bool" where
  "js_truthy JUndefined = False"
| "js_truthy JNull = False"
| "js_truthy (JBool b) = b"
| "js_truthy (JNum n) = (n \<noteq> 0)"
| "js_truthy (JStr s) = (s \<noteq> [])"
| "js_truthy JObject = True"

record req_body =
  body_prompt :: jsval
  body_provider :: jsval

text \<open>\<open>process.env\<close>\<close>

type_synonym env = "string \<Rightarrow> string option"

text \<open>The response: \<open>res.status(n).json(...)\<close>.\<close>

datatype part = Part (part_text: string)

datatype content = Content (parts: "part list")

datatype candidate = Candidate (content: content)

datatype json_body =
    ErrorJson (error: string)
  | GenerateJson (candidates: "candidate list") (json_provider: string) (json_model: string)

record response =
  status :: nat
  json :: json_body

text \<open>One call of an adapter by the endpoint, with what it was given and what came back.\<close>

record invocation =
  inv_provider :: string
  inv_apiKey :: string
  inv_calls :: "string list"
  inv_outcome :: "js_error + gen_result"

text \<open>
  The candidate list, from the destructured \<open>provider\<close> (here \<open>preference\<close>, the
  name \<open>provider\<close> being a field of the result). \<open>toLowerCase\<close> is a method of strings only: on any other truthy
  value the call is a TypeError, thrown outside the loop.
\<close>

definition providersToTry :: "jsval \<Rightarrow> js_error + string list" where
  "providersToTry preference =
     (if preference = JStr ''auto'' \<or> \<not> js_truthy preference
      then Inr [''groq'', ''openai'', ''gemini'', ''claude'']
      else (case preference of
              JStr s \<Rightarrow> Inr [toLowerCase s]
            | _ \<Rightarrow> Inl (new_Error ''provider.toLowerCase is not a function'')))"

text \<open>
  The \<open>switch\<close> on the provider name: \<open>None\<close> is its \<open>default: continue\<close>, \<open>Some k\<close> the
  value read from the environment.
\<close>

definition switch_apiKey :: "env \<Rightarrow> string \<Rightarrow> string option option" where
  "switch_apiKey env providerName =
     (if providerName = ''groq'' then Some (env ''GROQ_API_KEY'')
      else if providerName = ''openai'' then Some (env ''OPENAI_API_KEY'')
      else if providerName = ''gemini''
        then Some (js_or (env ''GEMINI_API_KEY'') (env ''BARD_API_KEY''))
      else if providerName = ''claude''
        then Some (js_or (env ''ANTHROPIC_API_KEY'') (env ''CLAUDE_API_KEY''))
      else None)"

text \<open>
  The loop over the candidates. It carries \<open>lastError\<close>; \<open>result\<close> is set only by the
  iteration that breaks out of the loop. The third component lists the adapter calls.
\<close>

fun try_providers ::
  "vendors \<Rightarrow> env \<Rightarrow> string \<Rightarrow> string list \<Rightarrow> string option
     \<Rightarrow> gen_result option \<times> string option \<times> invocation list" where
  "try_providers v env prompt [] lastError = (None, lastError, [])"
| "try_providers v env prompt (providerName # rest) lastError =
     (case switch_apiKey env providerName of
        None \<Rightarrow> try_providers v env prompt rest lastError
      | Some k \<Rightarrow>
          (case k of
             None \<Rightarrow> try_providers v env prompt rest lastError
           | Some apiKey \<Rightarrow>
               if apiKey = [] then try_providers v env prompt rest lastError
               else
                 (case aiProviders providerName of
                    None \<Rightarrow> try_providers v env prompt rest lastError
                  | Some adapter \<Rightarrow>
                      (case adapter v prompt apiKey of
                         (Inr result, calls) \<Rightarrow>
                           (Some result, lastError,
                            [\<lparr>inv_provider = providerName, inv_apiKey = apiKey,
                              inv_calls = calls, inv_outcome = Inr result\<rparr>])
                       | (Inl providerErr, calls) \<Rightarrow>
                           (case try_providers v env prompt rest (message providerErr) of
                              (res, le, log) \<Rightarrow>
                                (res, le,
                                 \<lparr>inv_provider = providerName, inv_apiKey = apiKey,
                                  inv_calls = calls, inv_outcome = Inl providerErr\<rparr> # log))))))"

definition all_failed_message :: "string option \<Rightarrow> string" where
  "all_failed_message lastError =
     ''Failed to generate content. Error: '' @ or_else lastError ''All providers failed'' @
     ''. Please ensure at least one AI API key is configured in your .env file (GROQ_API_KEY, OPENAI_API_KEY, GEMINI_API_KEY, or ANTHROPIC_API_KEY).''"

text \<open>The outermost \<open>catch\<close>.\<close>

definition unexpected :: "js_error \<Rightarrow> response" where
  "unexpected err = \<lparr>status = 500, json = ErrorJson (or_else (message err) ''AI proxy error'')\<rparr>"

text \<open>
  The handler. \<open>prompt.substring\<close> (in the log line after the validation) is a method of
  strings only: a truthy prompt of another type is a TypeError for the outermost
  \<open>catch\<close>.
\<close>

definition generate :: "vendors \<Rightarrow> env \<Rightarrow> req_body \<Rightarrow> response \<times> invocation list" where
  "generate v env body =
     (let prompt = body_prompt body;
          preference = (if body_provider body = JUndefined then JStr ''auto''
                        else body_provider body)
      in if \<not> js_truthy prompt
         then (\<lparr>status = 400, json = ErrorJson ''Missing prompt in request body''\<rparr>, [])
         else
           (case prompt of
              JStr p \<Rightarrow>
                (case providersToTry preference of
                   Inl err \<Rightarrow> (unexpected err, [])
                 | Inr names \<Rightarrow>
                     (case try_providers v env p names None of
                        (None, lastError, log) \<Rightarrow>
                          (\<lparr>status = 500, json = ErrorJson (all_failed_message lastError)\<rparr>,
                           log)
                      | (Some result, lastError, log) \<Rightarrow>
                          (\<lparr>status = 200,
                            json = GenerateJson [Candidate (Content [Part (result_text result)])]
                                     (provider result) (model result)\<rparr>,
                           log)))
            | _ \<Rightarrow> (unexpected (new_Error ''prompt.substring is not a function''), [])))"

section \<open>The client: \<open>generatePostWithGemini\<close>\<close>

text \<open>
  The function is asynchronous: it runs up to \<open>await fetch(...)\<close>, later from there up to
  \<open>await response.text()\<close>, later from there to its end. Between these pieces other calls
  of the function may run. The model has one step for each piece, on a state that holds
  the flag \<open>generatePostWithGemini._inFlight\<close>, the calls that are suspended at an
  \<open>await\<close> (oldest first), the requests handed to \<open>fetch\<close> so far, and the outcomes
  delivered to the callers so far.
\<close>

record fetch_request =
  url :: string
  http_method :: string
  sent :: req_body

text \<open>What the client reads of a response before its body: \<open>status\<close> and \<open>statusText\<close>.\<close>

record http_head =
  resp_status :: nat
  resp_statusText :: string

datatype pending = AwaitingFetch | AwaitingText http_head

record client =
  inFlight :: bool
  suspended :: "pending list"
  requests :: "fetch_request list"
  settled :: "(js_error + string) list"

definition client_init :: client where
  "client_init = \<lparr>inFlight = False, suspended = [], requests = [], settled = []\<rparr>"

text \<open>
  \<open>JSON.parse\<close> is a parameter of the model. Of its result the client reads \<open>.error\<close>
  (response not ok) or \<open>?.candidates?.[0]?.content?.parts?.[0]?.text\<close> (response ok), both
  taken to be strings when present; \<open>null\<close> is kept apart because \<open>null.error\<close> throws.
\<close>

datatype parsed =
    ParseThrows
  | ParsedNull
  | Parsed (error_field: "string option") (text_field: "string option")

text \<open>A status code in a template literal.\<close>

fun decimal :: "nat \<Rightarrow> string" where
  "decimal n =
     (if n < 10 then [char_of (48 + n)]
      else decimal (n div 10) @ [char_of (48 + n mod 10)])"

declare decimal.simps [simp del]

text \<open>\<open>prompt.substring(0, 50)\<close> on a prompt that is not a string.\<close>

definition substring_TypeError :: "jsval \<Rightarrow> js_error" where
  "substring_TypeError prompt =
     (case prompt of
        JUndefined \<Rightarrow>
          new_Error ''Cannot read properties of undefined (reading 'substring')''
      | JNull \<Rightarrow> new_Error ''Cannot read properties of null (reading 'substring')''
      | _ \<Rightarrow> new_Error ''prompt.substring is not a function'')"

text \<open>
  Leaving the \<open>try\<close> block: the \<open>catch\<close> rethrows, the \<open>finally\<close> clears the flag, and
  the caller gets the outcome.
\<close>

definition finish :: "client \<Rightarrow> js_error + string \<Rightarrow> client" where
  "finish c outcome = c\<lparr>inFlight := False, settled := settled c @ [outcome]\<rparr>"

text \<open>
  A call, up to its first \<open>await\<close>. The guard throws before the \<open>try\<close> block, so its
  \<open>finally\<close> does not run.
\<close>

definition call :: "client \<Rightarrow> jsval \<Rightarrow> jsval \<Rightarrow> client" where
  "call c prompt provider_arg =
     (let preference = (if provider_arg = JUndefined then JStr ''groq'' else provider_arg)
      in if inFlight c
         then c\<lparr>settled := settled c @
                   [Inl (new_Error ''Please wait for the current AI request to finish.'')]\<rparr>
         else
           (let c1 = c\<lparr>inFlight := True\<rparr>
            in case prompt of
                 JStr p \<Rightarrow>
                   c1\<lparr>requests := requests c1 @
                         [\<lparr>url = ''/api/ai/generate'', http_method = ''POST'',
                           sent = \<lparr>body_prompt = JStr p, body_provider = preference\<rparr>\<rparr>],
                      suspended := suspended c1 @ [AwaitingFetch]\<rparr>
               | _ \<Rightarrow> finish c1 (Inl (substring_TypeError prompt))))"

text \<open>The oldest suspended call resumes after \<open>await fetch(...)\<close>.\<close>

definition fetch_settles :: "client \<Rightarrow> js_error + http_head \<Rightarrow> client" where
  "fetch_settles c outcome =
     (case suspended c of
        AwaitingFetch # rest \<Rightarrow>
          (case outcome of
             Inl fetchError \<Rightarrow>
               finish (c\<lparr>suspended := rest\<rparr>)
                 (Inl (new_Error
                    (''Network error: '' @
                     (case message fetchError of None \<Rightarrow> ''undefined'' | Some m \<Rightarrow> m) @
                     ''. Please check if the server is running on http://localhost:5000'')))
           | Inr response \<Rightarrow> c\<lparr>suspended := AwaitingText response # rest\<rparr>)
      | _ \<Rightarrow> c)"

text \<open>The rest of the \<open>try\<close> block, from the response text on.\<close>

definition after_text :: "(string \<Rightarrow> parsed) \<Rightarrow> http_head \<Rightarrow> string \<Rightarrow> js_error + string" where
  "after_text JSON_parse response responseText =
     (if \<not> (200 \<le> resp_status response \<and> resp_status response \<le> 299)
      then
        (let errorMessage =
               (case JSON_parse responseText of
                  Parsed e t \<Rightarrow> or_else e ''Failed to generate content''
                | _ \<Rightarrow>
                    or_else (Some responseText)
                      (''HTTP '' @ decimal (resp_status response) @ '': '' @
                       resp_statusText response));
             errorMessage2 =
               (if resp_status response = 404
                then ''AI endpoint not found. Please check if the server is running and the route is correct.''
                else if resp_status response = 500
                then or_else (Some errorMessage)
                       ''Server error. Please check server logs for details.''
                else errorMessage)
         in Inl (new_Error errorMessage2))
      else
        (case JSON_parse responseText of
           ParseThrows \<Rightarrow> Inl (new_Error ''Invalid response from server'')
         | ParsedNull \<Rightarrow> Inl (new_Error ''No text generated. Please try again.'')
         | Parsed e t \<Rightarrow>
             (case t of
                None \<Rightarrow> Inl (new_Error ''No text generated. Please try again.'')
              | Some s \<Rightarrow>
                  if s = [] then Inl (new_Error ''No text generated. Please try again.'')
                  else Inr (trim s))))"

text \<open>The oldest suspended call resumes after \<open>await response.text()\<close>.\<close>

definition text_settles :: "(string \<Rightarrow> parsed) \<Rightarrow> client \<Rightarrow> js_error + string \<Rightarrow> client" where
  "text_settles JSON_parse c outcome =
     (case suspended c of
        AwaitingText response # rest \<Rightarrow>
          finish (c\<lparr>suspended := rest\<rparr>)
            (case outcome of
               Inl err \<Rightarrow> Inl err
             | Inr responseText \<Rightarrow> after_text JSON_parse response responseText)
      | _ \<Rightarrow> c)"

datatype event =
    Call jsval jsval
  | FetchSettles "js_error + http_head"
  | TextSettles "js_error + string"

fun step :: "(string \<Rightarrow> parsed) \<Rightarrow> client \<Rightarrow> event \<Rightarrow> client" where
  "step JSON_parse c (Call prompt provider_arg) = call c prompt provider_arg"
| "step JSON_parse c (FetchSettles outcome) = fetch_settles c outcome"
| "step JSON_parse c (TextSettles outcome) = text_settles JSON_parse c outcome"

definition run :: "(string \<Rightarrow> parsed) \<Rightarrow> client \<Rightarrow> event list \<Rightarrow> client" where
  "run JSON_parse c events = foldl (step JSON_parse) c events"

section \<open>Notions used to state the claims\<close>

text \<open>
  Follows the specification's words, not the code: a vendor signals "model unavailable"
  by a 404 status, by an error code meaning "model not found", or by an error message
  containing the substring \<open>model\<close> or \<open>404\<close>. The arguments are what is known of the
  failed attempt: its HTTP status, its error code and its error message, if any.
\<close>

definition spec_model_unavailable :: "nat option \<Rightarrow> string option \<Rightarrow> string option \<Rightarrow> bool" where
  "spec_model_unavailable http_status code msg =
     (http_status = Some 404 \<or> code = Some ''model_not_found'' \<or>
      (case msg of None \<Rightarrow> False | Some m \<Rightarrow> str_includes m ''model'' \<or> str_includes m ''404''))"

text \<open>
  The same notion on the replies of OpenAI: of a rejected \<open>fetch\<close> only the message is
  known, of a response that is not ok its status and the code and message of its body.
\<close>

definition openai_spec_shaped :: "openai_reply \<Rightarrow> bool" where
  "openai_spec_shaped reply =
     (case reply of
        OpenaiThrows err \<Rightarrow> spec_model_unavailable None None (message err)
      | OpenaiNotOk http_status code msg \<Rightarrow> spec_model_unavailable (Some http_status) code msg
      | OpenaiOk c \<Rightarrow> False)"

text \<open>
  The replies after which the Groq and the OpenAI adapter go on to their next model by
  their own test of the error, read off the code. Groq: an error whose message contains
  \<open>model\<close> or \<open>404\<close>. OpenAI: a response that is not ok, whose body it has read, with
  code \<open>model_not_found\<close> or status 404; and an error raised in the attempt (a rejected
  \<open>fetch\<close>, a body that cannot be read, whatever the status of the response, or the error
  the adapter throws itself for any other response that is not ok) whose message
  contains \<open>model_not_found\<close> or \<open>404\<close>.
\<close>

definition groq_recovers :: "groq_reply \<Rightarrow> bool" where
  "groq_recovers reply =
     (case reply of
        GroqRejects err \<Rightarrow> groq_model_unavailable err
      | GroqChat c \<Rightarrow> False)"

definition openai_recovers :: "openai_reply \<Rightarrow> bool" where
  "openai_recovers reply =
     (case reply of
        OpenaiThrows err \<Rightarrow>
          (case message err of
             None \<Rightarrow> False
           | Some m \<Rightarrow> str_includes m ''model_not_found'' \<or> str_includes m ''404'')
      | OpenaiNotOk http_status code msg \<Rightarrow>
          code = Some ''model_not_found'' \<or> http_status = 404 \<or>
          str_includes (or_else msg ''OpenAI API error'') ''model_not_found'' \<or>
          str_includes (or_else msg ''OpenAI API error'') ''404''
      | OpenaiOk c \<Rightarrow> False)"

text \<open>
  The Gemini adapter has no test of the error. For it the notion of the specification is
  kept as it is: of an error thrown in the attempt only the message is known.
\<close>

definition gemini_spec_shaped :: "gemini_reply \<Rightarrow> bool" where
  "gemini_spec_shaped reply =
     (case reply of
        GeminiThrows err \<Rightarrow> spec_model_unavailable None None (message err)
      | GeminiText t \<Rightarrow> False)"

text \<open>
  Follows the specification's words: the credential of a provider is the first non-empty
  value among the environment names it accepts, Gemini accepting \<open>GEMINI_API_KEY\<close> then
  \<open>BARD_API_KEY\<close>, Claude \<open>ANTHROPIC_API_KEY\<close> then \<open>CLAUDE_API_KEY\<close>.
\<close>

fun first_nonempty :: "string option list \<Rightarrow> string option" where
  "first_nonempty [] = None"
| "first_nonempty (a # rest) = (if truthy a then a else first_nonempty rest)"

definition credential_names :: "string \<Rightarrow> string list" where
  "credential_names n =
     (if n = ''groq'' then [''GROQ_API_KEY'']
      else if n = ''openai'' then [''OPENAI_API_KEY'']
      else if n = ''gemini'' then [''GEMINI_API_KEY'', ''BARD_API_KEY'']
      else if n = ''claude'' then [''ANTHROPIC_API_KEY'', ''CLAUDE_API_KEY'']
      else [])"

definition resolve_credential :: "env \<Rightarrow> string \<Rightarrow> string option" where
  "resolve_credential env n = first_nonempty (map env (credential_names n))"

text \<open>
  What calling the adapter of a candidate amounts to, when its credential resolves: the
  adapter registered under the name runs on the prompt with that credential.
\<close>

definition invoke :: "vendors \<Rightarrow> env \<Rightarrow> string \<Rightarrow> string \<Rightarrow> invocation option" where
  "invoke v env prompt n =
     (case resolve_credential env n of
        None \<Rightarrow> None
      | Some apiKey \<Rightarrow>
          (case aiProviders n of
             None \<Rightarrow> None
           | Some adapter \<Rightarrow>
               Some \<lparr>inv_provider = n, inv_apiKey = apiKey,
                     inv_calls = snd (adapter v prompt apiKey),
                     inv_outcome = fst (adapter v prompt apiKey)\<rparr>))"

text \<open>An adapter call failed when the adapter threw.\<close>

definition failed :: "invocation \<Rightarrow> bool" where
  "failed i = isl (inv_outcome i)"

text \<open>The calls up to and including the first one that did not fail.\<close>

definition until_success :: "invocation list \<Rightarrow> invocation list" where
  "until_success runs = takeWhile failed runs @ take 1 (dropWhile failed runs)"

text \<open>The value of \<open>lastError\<close> after the adapter calls of a list, starting from a given value.\<close>

fun last_error :: "string option \<Rightarrow> invocation list \<Rightarrow> string option" where
  "last_error le [] = le"
| "last_error le (i # log) =
     last_error (case inv_outcome i of Inl e \<Rightarrow> message e | Inr r \<Rightarrow> le) log"


text \<open>
  The invariant of the client: the flag is set exactly while a call is suspended at an
  \<open>await\<close>, and at most one call is.
\<close>

definition single_flight_inv :: "client \<Rightarrow> bool" where
  "single_flight_inv c = ((inFlight c \<longleftrightarrow> suspended c \<noteq> []) \<and> length (suspended c) \<le> 1)"

section \<open>Sample inputs\<close>

text \<open>
  Vendors of which Groq and OpenAI do not know their first model, Gemini refuses the
  API key on its first model only, and Claude answers with a single blank.
\<close>

definition vendors_A :: vendors where
  "vendors_A =
     \<lparr>groq_create = (\<lambda>apiKey modelName prompt.
          if modelName = ''llama-3.1-8b-instant''
          then GroqRejects (JsError (Some ''404 The model does not exist''))
          else GroqChat (Some '' hello '')),
      gemini_generate = (\<lambda>apiKey modelName prompt.
          if modelName = ''gemini-2.0-flash-exp''
          then GeminiThrows (JsError (Some ''API key not valid''))
          else GeminiText ''hi''),
      openai_fetch = (\<lambda>apiKey modelName prompt.
          if modelName = ''gpt-4''
          then OpenaiNotOk 404 (Some ''model_not_found'') (Some ''No such model'')
          else OpenaiOk (Some ''hi'')),
      claude_fetch = (\<lambda>apiKey prompt. ClaudeOk (Some '' ''))\<rparr>"

definition env_claude_only :: env where
  "env_claude_only = (\<lambda>name. if name = ''CLAUDE_API_KEY'' then Some ''sk-ant'' else None)"

text \<open>
  Vendors of which Groq is rate limited, OpenAI rejects the request for its first model
  with a message that talks about a model, Gemini is unreachable, and Claude answers
  to one key only.
\<close>

definition vendors_B :: vendors where
  "vendors_B =
     \<lparr>groq_create = (\<lambda>apiKey modelName prompt.
          GroqRejects (JsError (Some ''Rate limit reached''))),
      gemini_generate = (\<lambda>apiKey modelName prompt.
          GeminiThrows (JsError (Some ''fetch failed''))),
      openai_fetch = (\<lambda>apiKey modelName prompt.
          if modelName = ''gpt-4''
          then OpenaiNotOk 400 None (Some ''Unsupported model parameter'')
          else OpenaiOk (Some ''hi'')),
      claude_fetch = (\<lambda>apiKey prompt.
          if apiKey = ''sk-ant'' then ClaudeOk (Some ''Hello. '') else ClaudeNotOk None)\<rparr>"

text \<open>Vendors of which Groq, Gemini and OpenAI do not know their first model.\<close>

definition vendors_C :: vendors where
  "vendors_C =
     \<lparr>groq_create = (\<lambda>apiKey modelName prompt.
          if modelName = ''llama-3.1-8b-instant''
          then GroqRejects (JsError (Some ''404 The model does not exist''))
          else GroqChat (Some '' hello '')),
      gemini_generate = (\<lambda>apiKey modelName prompt.
          if modelName = ''gemini-2.0-flash-exp''
          then GeminiThrows
                 (JsError (Some ''[404 Not Found] models/gemini-2.0-flash-exp is not found''))
          else GeminiText ''hi''),
      openai_fetch = (\<lambda>apiKey modelName prompt.
          if modelName = ''gpt-4''
          then OpenaiNotOk 404 (Some ''model_not_found'') (Some ''No such model'')
          else OpenaiOk (Some ''hi'')),
      claude_fetch = (\<lambda>apiKey prompt. ClaudeOk (Some ''Hello.''))\<rparr>"

text \<open>An environment with every name set, \<open>GEMINI_API_KEY\<close> to the empty string.\<close>

definition env_all :: env where
  "env_all =
     (\<lambda>name. if name = ''GROQ_API_KEY'' then Some ''gsk''
             else if name = ''OPENAI_API_KEY'' then Some ''sk-oa''
             else if name = ''GEMINI_API_KEY'' then Some []
             else if name = ''BARD_API_KEY'' then Some ''bard''
             else if name = ''ANTHROPIC_API_KEY'' then Some ''sk-ant''
             else if name = ''CLAUDE_API_KEY'' then Some ''sk-old''
             else None)"


text \<open>A request that leaves the provider out, and one that names an unknown provider.\<close>

definition request_auto :: req_body where
  "request_auto = \<lparr>body_prompt = JStr ''p'', body_provider = JUndefined\<rparr>"


text \<open>
  A body as the endpoint sends it on success, and a parser that answers on it, on the
  empty object and on \<open>null\<close> as \<open>JSON.parse\<close> does, and on every other text as on one
  that is not JSON. The sample runs below give it these three texts only.
\<close>

definition body_success :: string where
  \<open>body_success = ''{"candidates":[{"content":{"parts":[{"text":" hi "}]}}],"provider":"groq","model":"llama-3.1-8b-instant"}''\<close>

definition parse_sample :: "string \<Rightarrow> parsed" where
  "parse_sample responseText =
     (if responseText = body_success then Parsed None (Some '' hi '')
      else if responseText = ''{}'' then Parsed None None
      else if responseText = ''null'' then ParsedNull
      else ParseThrows)"

text \<open>
  Runs of the client: a call that waits for \<open>fetch\<close>; the same after the response has
  come with status 200, waiting for its body; the same after the body \<open>{}\<close> has come.
\<close>

definition response_ok :: http_head where
  "response_ok = \<lparr>resp_status = 200, resp_statusText = ''OK''\<rparr>"

definition events_waiting :: "event list" where
  "events_waiting = [Call (JStr ''p'') JUndefined]"

definition events_answered :: "event list" where
  "events_answered = [Call (JStr ''p'') JUndefined, FetchSettles (Inr response_ok)]"

definition events_settled :: "event list" where
  "events_settled =
     [Call (JStr ''p'') JUndefined, FetchSettles (Inr response_ok), TextSettles (Inr ''{}'')]"

text \<open>The request of that call.\<close>

definition request_p :: fetch_request where
  "request_p =
     \<lparr>url = ''/api/ai/generate'', http_method = ''POST'',
      sent = \<lparr>body_prompt = JStr ''p'', body_provider = JStr ''groq''\<rparr>\<rparr>"

text \<open>The request body the client sends by default.\<close>

definition request_groq :: req_body where
  "request_groq = \<lparr>body_prompt = JStr ''p'', body_provider = JStr ''groq''\<rparr>"

section \<open>Strings\<close>

lemma trim_Nil: "trim [] = []"
  by (simp add: trim_def)






lemma includes_model_not_found: "str_includes m ''model_not_found'' \<Longrightarrow> str_includes m ''model''"
  unfolding str_includes_def
  by (rule sublist_order.order.trans [of _ "''model_not_found''"])
     (simp_all add: sublist_Cons_right)

section \<open>What a successful adapter returns\<close>





lemma claude_vendors_A:
  "claude vendors_A p k =
     (Inr \<lparr>result_text = [], model = ''claude-3-haiku-20240307'', provider = ''claude''\<rparr>,
      [''claude-3-haiku-20240307''])"
  by (simp add: claude_def vendors_A_def trim_def is_ws_def)

section \<open>The loops over the models\<close>

lemma trim_nonempty: "trim t \<noteq> [] \<Longrightarrow> t \<noteq> []"
  by (auto simp: trim_Nil)

lemma groq_loop_recovers:
  assumes "\<forall>m \<in> set pre. groq_recovers (create m)"
    and "create m' = GroqChat (Some t)" and "trim t \<noteq> []"
  shows "groq_loop create (pre @ m' # post) =
           (Inr \<lparr>result_text = trim t, model = m', provider = ''groq''\<rparr>, pre @ [m'])"
  using assms(1)
proof (induction pre)
  case Nil
  from assms(2,3) trim_nonempty [OF assms(3)] show ?case
    by simp
next
  case (Cons m pre)
  then have "groq_recovers (create m)" and ih: "groq_loop create (pre @ m' # post) =
           (Inr \<lparr>result_text = trim t, model = m', provider = ''groq''\<rparr>, pre @ [m'])"
    by simp_all
  then show ?case
    by (auto simp: groq_recovers_def attempted_def split: groq_reply.splits)
qed

lemma gemini_loop_recovers:
  assumes "\<forall>m \<in> set pre. gemini_spec_shaped (gen m)"
    and "gen m' = GeminiText t" and "trim t \<noteq> []"
  shows "gemini_loop gen (pre @ m' # post) =
           (Inr \<lparr>result_text = trim t, model = m', provider = ''gemini''\<rparr>, pre @ [m'])"
  using assms(1)
proof (induction pre)
  case Nil
  from assms(2,3) trim_nonempty [OF assms(3)] show ?case
    by simp
next
  case (Cons m pre)
  then have "gemini_spec_shaped (gen m)" and ih: "gemini_loop gen (pre @ m' # post) =
           (Inr \<lparr>result_text = trim t, model = m', provider = ''gemini''\<rparr>, pre @ [m'])"
    by simp_all
  then show ?case
    by (auto simp: gemini_spec_shaped_def attempted_def split: gemini_reply.splits)
qed

lemma openai_loop_recovers:
  assumes "\<forall>m \<in> set pre. openai_recovers (fetch m)"
    and "fetch m' = OpenaiOk (Some t)" and "trim t \<noteq> []"
  shows "openai_loop fetch (pre @ m' # post) =
           (Inr \<lparr>result_text = trim t, model = m', provider = ''openai''\<rparr>, pre @ [m'])"
  using assms(1)
proof (induction pre)
  case Nil
  from assms(2,3) trim_nonempty [OF assms(3)] show ?case
    by simp
next
  case (Cons m pre)
  then have "openai_recovers (fetch m)" and ih: "openai_loop fetch (pre @ m' # post) =
           (Inr \<lparr>result_text = trim t, model = m', provider = ''openai''\<rparr>, pre @ [m'])"
    by simp_all
  then show ?case
    by (auto simp: openai_recovers_def openai_catch_def new_Error_def attempted_def
        split: openai_reply.splits option.splits)
qed

lemma vendors_C_first_replies:
  "groq_recovers (groq_create vendors_C k (groq_modelsToTry ! 0) p)"
  "gemini_spec_shaped (gemini_generate vendors_C k (gemini_modelsToTry ! 0) p)"
  "openai_recovers (openai_fetch vendors_C k (openai_modelsToTry ! 0) p)"
  by (simp_all add: vendors_C_def groq_modelsToTry_def gemini_modelsToTry_def
      openai_modelsToTry_def groq_recovers_def gemini_spec_shaped_def openai_recovers_def
      groq_model_unavailable_def spec_model_unavailable_def str_includes_def
      sublist_Cons_right)

lemma vendors_C_second_replies:
  "groq_create vendors_C k (groq_modelsToTry ! Suc 0) p = GroqChat (Some '' hello '')"
  "gemini_generate vendors_C k (gemini_modelsToTry ! Suc 0) p = GeminiText ''hi''"
  "openai_fetch vendors_C k (openai_modelsToTry ! Suc 0) p = OpenaiOk (Some ''hi'')"
  by (simp_all add: vendors_C_def groq_modelsToTry_def gemini_modelsToTry_def
      openai_modelsToTry_def)

lemma trim_samples: "trim '' hello '' = ''hello''" "trim ''hi'' = ''hi''"
  by (simp_all add: trim_def is_ws_def)

text \<open>
  An error that is not a "model unavailable" signal: the Groq and OpenAI adapters throw
  it out of the loop at the model that raised it, and the Claude adapter has one request
  only. The Gemini adapter never throws anything but its final error, after it has asked
  every model.
\<close>

lemma groq_unavailable_spec:
  "groq_model_unavailable err = spec_model_unavailable None None (message err)"
  by (simp add: groq_model_unavailable_def spec_model_unavailable_def)

lemma groq_loop_fatal:
  assumes "\<forall>m \<in> set pre. groq_recovers (create m)"
    and "create m' = GroqRejects err"
    and "\<not> spec_model_unavailable None None (message err)"
  shows "groq_loop create (pre @ m' # post) = (Inl err, pre @ [m'])"
  using assms(1)
proof (induction pre)
  case Nil
  from assms(2,3) show ?case
    by (simp add: groq_unavailable_spec)
next
  case (Cons m pre)
  then have "groq_recovers (create m)"
    and "groq_loop create (pre @ m' # post) = (Inl err, pre @ [m'])"
    by simp_all
  then show ?case
    by (auto simp: groq_recovers_def attempted_def split: groq_reply.splits)
qed

lemma openai_catch_fatal:
  "\<not> spec_model_unavailable None None (Some m) \<Longrightarrow>
   openai_catch (JsError (Some m)) = Some (JsError (Some m))"
  by (auto simp: openai_catch_def spec_model_unavailable_def dest: includes_model_not_found)

lemma openai_default_message:
  "\<not> str_includes ''OpenAI API error'' ''model_not_found'' \<and>
   \<not> str_includes ''OpenAI API error'' ''404''"
  by (simp add: str_includes_def sublist_Cons_right)

lemma openai_loop_fatal_response:
  assumes "\<forall>m \<in> set pre. openai_recovers (fetch m)"
    and "fetch m' = OpenaiNotOk http_status code msg"
    and "\<not> spec_model_unavailable (Some http_status) code msg"
  shows "openai_loop fetch (pre @ m' # post) =
           (Inl (new_Error (or_else msg ''OpenAI API error'')), pre @ [m'])"
  using assms(1)
proof (induction pre)
  case Nil
  from assms(3) have a: "code \<noteq> Some ''model_not_found''" "http_status \<noteq> 404"
    and b: "\<not> str_includes (or_else msg ''OpenAI API error'') ''model_not_found''"
           "\<not> str_includes (or_else msg ''OpenAI API error'') ''404''"
    using openai_default_message
    by (auto simp: spec_model_unavailable_def or_else_def dest: includes_model_not_found
        split: option.splits)
  with assms(2) show ?case
    by (simp add: openai_catch_def new_Error_def)
next
  case (Cons m pre)
  then have "openai_recovers (fetch m)"
    and "openai_loop fetch (pre @ m' # post) =
           (Inl (new_Error (or_else msg ''OpenAI API error'')), pre @ [m'])"
    by simp_all
  then show ?case
    by (auto simp: openai_recovers_def openai_catch_def new_Error_def attempted_def
        split: openai_reply.splits option.splits)
qed

lemma openai_loop_fatal_throw:
  assumes "\<forall>m \<in> set pre. openai_recovers (fetch m)"
    and "fetch m' = OpenaiThrows (JsError (Some msg))"
    and "\<not> spec_model_unavailable None None (Some msg)"
  shows "openai_loop fetch (pre @ m' # post) = (Inl (JsError (Some msg)), pre @ [m'])"
  using assms(1)
proof (induction pre)
  case Nil
  from assms(2) openai_catch_fatal [OF assms(3)] show ?case
    by simp
next
  case (Cons m pre)
  then have "openai_recovers (fetch m)"
    and "openai_loop fetch (pre @ m' # post) = (Inl (JsError (Some msg)), pre @ [m'])"
    by simp_all
  then show ?case
    by (auto simp: openai_recovers_def openai_catch_def new_Error_def attempted_def
        split: openai_reply.splits option.splits)
qed

text \<open>
  So it is with a response whose body is not JSON, also when its status is 404: reading
  the body throws before the status is looked at.
\<close>

lemma openai_unreadable_body:
  "fetch m = OpenaiThrows (JsError (Some ''Unexpected token < in JSON at position 0'')) \<Longrightarrow>
   openai_loop fetch (m # rest) =
     (Inl (JsError (Some ''Unexpected token < in JSON at position 0'')), [m])"
  by (simp add: openai_catch_def str_includes_def sublist_Cons_right)

lemma claude_fatal:
  "claude_fetch v k p = ClaudeThrows err \<Longrightarrow>
   claude v p k = (Inl err, [''claude-3-haiku-20240307''])"
  by (simp add: claude_def)

lemma gemini_loop_error:
  "gemini_loop gen ms = (Inl e, calls) \<Longrightarrow>
   e = new_Error ''All Gemini models failed'' \<and> calls = ms"
proof (induction ms arbitrary: calls)
  case Nil
  then show ?case by simp
next
  case (Cons m ms)
  obtain r' calls' where rest: "gemini_loop gen ms = (r', calls')"
    by (cases "gemini_loop gen ms")
  with Cons.prems have "r' = Inl e" "calls = m # calls'"
    by (auto simp: attempted_def split: gemini_reply.splits if_splits)
  with Cons.IH [of calls'] rest show ?case
    by simp
qed

section \<open>The loop over the providers\<close>

text \<open>The \<open>switch\<close> with the test \<open>!apiKey\<close> resolves the credential as described.\<close>

lemma resolve_switch:
  "resolve_credential env n =
     (case switch_apiKey env n of
        None \<Rightarrow> None
      | Some None \<Rightarrow> None
      | Some (Some k) \<Rightarrow> if k = [] then None else Some k)"
  by (cases "env ''GROQ_API_KEY''"; cases "env ''OPENAI_API_KEY''"; cases "env ''GEMINI_API_KEY''";
      cases "env ''BARD_API_KEY''"; cases "env ''ANTHROPIC_API_KEY''"; cases "env ''CLAUDE_API_KEY''")
     (simp_all add: resolve_credential_def credential_names_def switch_apiKey_def js_or_def)

text \<open>One iteration of the loop, in terms of the adapter call it makes or does not make.\<close>

lemma try_providers_Cons:
  "try_providers v env p (n # rest) le =
     (case invoke v env p n of
        None \<Rightarrow> try_providers v env p rest le
      | Some i \<Rightarrow>
          (case inv_outcome i of
             Inr r \<Rightarrow> (Some r, le, [i])
           | Inl e \<Rightarrow>
               (case try_providers v env p rest (message e) of
                  (res, le', log) \<Rightarrow> (res, le', i # log))))"
  by (auto simp: invoke_def resolve_switch split: option.splits sum.splits prod.splits)

declare try_providers.simps [simp del]

lemma until_success_Nil: "until_success [] = []"
  by (simp add: until_success_def)

lemma until_success_Cons:
  "until_success (i # runs) = (if failed i then i # until_success runs else [i])"
  by (simp add: until_success_def)

lemma until_success_prefix: "prefix (until_success runs) runs"
  by (induction runs) (simp_all add: until_success_Nil until_success_Cons)

lemma try_providers_log:
  "snd (snd (try_providers v env p names le)) =
     until_success (List.map_filter (invoke v env p) names)"
proof (induction names arbitrary: le)
  case Nil
  show ?case by (simp add: try_providers.simps until_success_Nil)
next
  case (Cons n names)
  show ?case
  proof (cases "invoke v env p n")
    case None
    then show ?thesis
      using Cons.IH [of le] by (simp add: try_providers_Cons)
  next
    case (Some i)
    show ?thesis
    proof (cases "inv_outcome i")
      case (Inl e)
      obtain res2 le2 log2 where rest: "try_providers v env p names (message e) = (res2, le2, log2)"
        by (cases "try_providers v env p names (message e)")
      with Cons.IH [of "message e"]
      have "log2 = until_success (List.map_filter (invoke v env p) names)"
        by simp
      with Inl Some rest show ?thesis
        by (simp add: try_providers_Cons until_success_Cons failed_def
           )
    next
      case (Inr r)
      then show ?thesis
        using Some
        by (simp add: try_providers_Cons until_success_Cons failed_def
           )
    qed
  qed
qed

lemma try_providers_result:
  "try_providers v env p names le = (res, le', log) \<Longrightarrow>
     list_all failed (butlast log) \<and>
     (case res of
        None \<Rightarrow> list_all failed log
      | Some r \<Rightarrow> log \<noteq> [] \<and> inv_outcome (last log) = Inr r) \<and>
     le' = last_error le log"
proof (induction names arbitrary: le res le' log)
  case Nil
  then show ?case by (auto simp: try_providers.simps)
next
  case (Cons n names)
  show ?case
  proof (cases "invoke v env p n")
    case None
    with Cons.prems have "try_providers v env p names le = (res, le', log)"
      by (simp add: try_providers_Cons)
    then show ?thesis by (rule Cons.IH)
  next
    case (Some i)
    show ?thesis
    proof (cases "inv_outcome i")
      case (Inl e)
      obtain res2 le2 log2 where rest: "try_providers v env p names (message e) = (res2, le2, log2)"
        by (cases "try_providers v env p names (message e)")
      from Cons.prems Some Inl rest have eq: "res = res2" "le' = le2" "log = i # log2"
        by (simp_all add: try_providers_Cons)
      have fi: "failed i"
        by (simp add: failed_def Inl)
      from Cons.IH [OF rest] Inl eq fi show ?thesis
        by (cases log2) (auto split: option.splits)
    next
      case (Inr r)
      with Cons.prems Some show ?thesis
        by (auto simp: try_providers_Cons)
    qed
  qed
qed

lemma invoke_provider: "invoke v env p n = Some i \<Longrightarrow> inv_provider i = n"
  by (auto simp: invoke_def split: option.splits)

lemma map_filter_invoke_names:
  "map inv_provider (List.map_filter (invoke v env p) names) =
     filter (\<lambda>n. invoke v env p n \<noteq> None) names"
  by (induction names) (auto simp: invoke_provider split: option.splits)

lemma log_subseq:
  "subseq (map inv_provider (snd (snd (try_providers v env p names le)))) names"
proof -
  have "prefix (map inv_provider (until_success (List.map_filter (invoke v env p) names)))
          (map inv_provider (List.map_filter (invoke v env p) names))"
    by (rule map_mono_prefix) (rule until_success_prefix)
  then have "subseq (map inv_provider (until_success (List.map_filter (invoke v env p) names)))
          (filter (\<lambda>n. invoke v env p n \<noteq> None) names)"
    by (simp add: map_filter_invoke_names prefix_imp_subseq)
  then have "subseq (map inv_provider (until_success (List.map_filter (invoke v env p) names))) names"
    by (rule subseq_order.trans) simp
  then show ?thesis by (simp add: try_providers_log)
qed

lemma first_nonempty_Some: "first_nonempty ks = Some k \<Longrightarrow> k \<noteq> []"
  by (induction ks) (auto split: if_splits)

lemma resolve_credential_nonempty: "resolve_credential env n = Some k \<Longrightarrow> k \<noteq> []"
  unfolding resolve_credential_def by (rule first_nonempty_Some)

lemma invoke_credential:
  "invoke v env p n = Some i \<Longrightarrow> resolve_credential env n = Some (inv_apiKey i)"
  by (auto simp: invoke_def split: option.splits)

lemma in_until_success: "i \<in> set (until_success runs) \<Longrightarrow> i \<in> set runs"
  using set_mono_prefix [OF until_success_prefix [of runs]] by blast

lemma in_map_filter: "i \<in> set (List.map_filter f xs) \<Longrightarrow> \<exists>x \<in> set xs. f x = Some i"
  by (induction xs) (auto split: option.splits)

lemma log_invoked:
  assumes "i \<in> set (snd (snd (try_providers v env p names le)))"
  shows "inv_provider i \<in> set names \<and> invoke v env p (inv_provider i) = Some i"
proof -
  from assms have "i \<in> set (List.map_filter (invoke v env p) names)"
    by (simp add: try_providers_log in_until_success)
  then obtain n where n: "n \<in> set names" "invoke v env p n = Some i"
    using in_map_filter by fastforce
  then show ?thesis
    using invoke_provider by fastforce
qed

lemma generate_cases:
  "snd (generate v env body) = [] \<or>
   (\<exists>p names. body_prompt body = JStr p \<and> p \<noteq> [] \<and>
      providersToTry (if body_provider body = JUndefined then JStr ''auto''
                      else body_provider body) = Inr names \<and>
      snd (generate v env body) = snd (snd (try_providers v env p names None)) \<and>
      fst (generate v env body) =
        (case fst (try_providers v env p names None) of
           None \<Rightarrow> \<lparr>status = 500,
                     json = ErrorJson (all_failed_message
                              (fst (snd (try_providers v env p names None))))\<rparr>
         | Some r \<Rightarrow> \<lparr>status = 200,
                       json = GenerateJson [Candidate (Content [Part (result_text r)])]
                                (provider r) (model r)\<rparr>))"
  by (cases "body_prompt body")
     (auto simp: generate_def Let_def unexpected_def split: sum.splits prod.splits option.splits)







section \<open>The handler\<close>

lemma chain_candidates:
  "pref = JUndefined \<or> pref = JStr ''auto'' \<Longrightarrow>
   providersToTry (if pref = JUndefined then JStr ''auto'' else pref) =
     Inr [''groq'', ''openai'', ''gemini'', ''claude'']"
  by (auto simp: providersToTry_def)

lemma generate_dispatch:
  assumes "p \<noteq> []"
    and "providersToTry (if pref = JUndefined then JStr ''auto'' else pref) = Inr names"
    and "try_providers v env p names None = (res, le, log)"
  shows "generate v env \<lparr>body_prompt = JStr p, body_provider = pref\<rparr> =
     ((case res of
         None \<Rightarrow> \<lparr>status = 500, json = ErrorJson (all_failed_message le)\<rparr>
       | Some r \<Rightarrow> \<lparr>status = 200,
                     json = GenerateJson [Candidate (Content [Part (result_text r)])]
                              (provider r) (model r)\<rparr>),
      log)"
proof (cases "pref = JUndefined")
  case True
  with assms show ?thesis
    by (simp add: generate_def Let_def split: option.splits)
next
  case False
  with assms show ?thesis
    by (simp add: generate_def Let_def split: option.splits)
qed




lemma invoke_no_credential: "resolve_credential env n = None \<Longrightarrow> invoke v env p n = None"
  by (simp add: invoke_def)

text \<open>The sample vendors and requests, evaluated.\<close>

lemma vendors_B_runs:
  "groq vendors_B p k = (Inl (JsError (Some ''Rate limit reached'')), [''llama-3.1-8b-instant''])"
  "openai vendors_B p k = (Inl (JsError (Some ''Unsupported model parameter'')), [''gpt-4''])"
  "gemini vendors_B p k = (Inl (JsError (Some ''All Gemini models failed'')), gemini_modelsToTry)"
  "claude vendors_B p ''sk-ant'' =
     (Inr \<lparr>result_text = ''Hello.'', model = ''claude-3-haiku-20240307'', provider = ''claude''\<rparr>,
      [''claude-3-haiku-20240307''])"
     apply (simp add: groq_def groq_modelsToTry_def vendors_B_def groq_model_unavailable_def
        str_includes_def sublist_Cons_right)
    apply (simp add: openai_def openai_modelsToTry_def vendors_B_def openai_catch_def or_else_def
        new_Error_def str_includes_def sublist_Cons_right)
   apply (simp add: gemini_def gemini_modelsToTry_def vendors_B_def attempted_def new_Error_def)
  apply (simp add: claude_def vendors_B_def trim_def is_ws_def)
  done

lemma generate_B_all:
  "generate vendors_B env_all request_auto =
     (\<lparr>status = 200,
       json = GenerateJson [Candidate (Content [Part ''Hello.''])] ''claude''
                ''claude-3-haiku-20240307''\<rparr>,
      [\<lparr>inv_provider = ''groq'', inv_apiKey = ''gsk'', inv_calls = [''llama-3.1-8b-instant''],
        inv_outcome = Inl (JsError (Some ''Rate limit reached''))\<rparr>,
       \<lparr>inv_provider = ''openai'', inv_apiKey = ''sk-oa'', inv_calls = [''gpt-4''],
        inv_outcome = Inl (JsError (Some ''Unsupported model parameter''))\<rparr>,
       \<lparr>inv_provider = ''gemini'', inv_apiKey = ''bard'', inv_calls = gemini_modelsToTry,
        inv_outcome = Inl (JsError (Some ''All Gemini models failed''))\<rparr>,
       \<lparr>inv_provider = ''claude'', inv_apiKey = ''sk-ant'',
        inv_calls = [''claude-3-haiku-20240307''],
        inv_outcome = Inr \<lparr>result_text = ''Hello.'', model = ''claude-3-haiku-20240307'',
                           provider = ''claude''\<rparr>\<rparr>])"
  by (simp add: generate_def request_auto_def providersToTry_def try_providers.simps
      switch_apiKey_def js_or_def env_all_def aiProviders_def vendors_B_runs)




section \<open>The client\<close>

lemma inv_init: "single_flight_inv client_init"
  by (simp add: single_flight_inv_def client_init_def)

lemma inv_call: "single_flight_inv c \<Longrightarrow> single_flight_inv (call c prompt provider_arg)"
  by (cases prompt) (auto simp: single_flight_inv_def call_def finish_def Let_def)

lemma inv_fetch_settles: "single_flight_inv c \<Longrightarrow> single_flight_inv (fetch_settles c outcome)"
  by (auto simp: single_flight_inv_def fetch_settles_def finish_def
      split: list.splits pending.splits sum.splits)

lemma inv_text_settles:
  "single_flight_inv c \<Longrightarrow> single_flight_inv (text_settles JSON_parse c outcome)"
  by (auto simp: single_flight_inv_def text_settles_def finish_def
      split: list.splits pending.splits)

lemma inv_step: "single_flight_inv c \<Longrightarrow> single_flight_inv (step JSON_parse c ev)"
  by (cases ev) (simp_all add: inv_call inv_fetch_settles inv_text_settles)

lemma inv_run: "single_flight_inv c \<Longrightarrow> single_flight_inv (run JSON_parse c events)"
  unfolding run_def by (induction events arbitrary: c) (simp_all add: inv_step)

lemma settle_clears:
  "\<forall>p a. ev \<noteq> Call p a \<Longrightarrow> settled (step JSON_parse c ev) \<noteq> settled c \<Longrightarrow>
     \<not> inFlight (step JSON_parse c ev)"
  by (cases ev)
     (auto simp: fetch_settles_def text_settles_def finish_def
       split: list.splits pending.splits sum.splits)

text \<open>
  In a state the client can reach, a call in flight waits for \<open>fetch\<close> or for the body.
\<close>

lemma inv_pending:
  "single_flight_inv c \<Longrightarrow> inFlight c \<Longrightarrow>
   suspended c = [AwaitingFetch] \<or> (\<exists>response. suspended c = [AwaitingText response])"
proof -
  assume "single_flight_inv c" and "inFlight c"
  then have "suspended c \<noteq> []" and "length (suspended c) \<le> 1"
    by (simp_all add: single_flight_inv_def)
  then obtain x where x: "suspended c = [x]"
    by (cases "suspended c") auto
  then show ?thesis
    by (cases x) simp_all
qed

text \<open>The steps that resume a suspended call, one by one.\<close>

lemma fetch_rejected:
  "suspended c = [AwaitingFetch] \<Longrightarrow>
   step JSON_parse c (FetchSettles (Inl fetchError)) =
     c\<lparr>inFlight := False, suspended := [],
       settled := settled c @
         [Inl (new_Error
            (''Network error: '' @
             (case message fetchError of None \<Rightarrow> ''undefined'' | Some m \<Rightarrow> m) @
             ''. Please check if the server is running on http://localhost:5000''))]\<rparr>"
  by (simp add: fetch_settles_def finish_def)

lemma fetch_resolved:
  "suspended c = [AwaitingFetch] \<Longrightarrow>
   step JSON_parse c (FetchSettles (Inr response)) = c\<lparr>suspended := [AwaitingText response]\<rparr>"
  by (simp add: fetch_settles_def)

lemma text_settled:
  "suspended c = [AwaitingText response] \<Longrightarrow>
   step JSON_parse c (TextSettles outcome) =
     c\<lparr>inFlight := False, suspended := [],
       settled := settled c @
         [case outcome of
            Inl err \<Rightarrow> Inl err
          | Inr responseText \<Rightarrow> after_text JSON_parse response responseText]\<rparr>"
  by (simp add: text_settles_def finish_def)

lemma call_not_a_string:
  "\<not> inFlight c \<Longrightarrow> \<forall>s. prompt \<noteq> JStr s \<Longrightarrow>
   call c prompt provider_arg =
     c\<lparr>inFlight := False, settled := settled c @ [Inl (substring_TypeError prompt)]\<rparr>"
  by (cases prompt) (simp_all add: call_def finish_def)

text \<open>The sample runs, evaluated.\<close>

lemmas client_defs =
  run_def call_def fetch_settles_def text_settles_def finish_def client_init_def
  events_waiting_def events_answered_def events_settled_def request_p_def new_Error_def

lemma sample_waiting:
  "run parse_sample client_init events_waiting =
     \<lparr>inFlight = True, suspended = [AwaitingFetch], requests = [request_p], settled = []\<rparr>"
  by (simp add: client_defs)

lemma sample_answered:
  "run parse_sample client_init events_answered =
     \<lparr>inFlight = True, suspended = [AwaitingText response_ok], requests = [request_p],
      settled = []\<rparr>"
  by (simp add: client_defs)

lemma after_text_samples:
  "after_text parse_sample response_ok ''{}'' =
     Inl (JsError (Some ''No text generated. Please try again.''))"
  "after_text parse_sample response_ok body_success = Inr ''hi''"
  by (simp_all add: after_text_def parse_sample_def response_ok_def new_Error_def
      body_success_def trim_def is_ws_def)

lemma sample_settled:
  "run parse_sample client_init events_settled =
     \<lparr>inFlight = False, suspended = [], requests = [request_p],
      settled = [Inl (JsError (Some ''No text generated. Please try again.''))]\<rparr>"
  by (simp add: client_defs after_text_samples)

lemma lower_groq: "toLowerCase ''groq'' = ''groq''"
  by code_simp

lemma groq_candidates: "providersToTry (JStr ''groq'') = Inr [''groq'']"
  by (simp add: providersToTry_def lower_groq)

lemma subseq_single:
  assumes "subseq xs [a]"
  shows "list_all (\<lambda>x. x = a) xs \<and> length xs \<le> 1"
proof
  show "list_all (\<lambda>x. x = a) xs"
    unfolding list_all_iff
  proof
    fix x
    assume "x \<in> set xs"
    with assms obtain y where "y \<in> set [a]" "x = y"
      by (rule list_emb_set)
    then show "x = a"
      by simp
  qed
  from list_emb_length [OF assms] show "length xs \<le> 1"
    by simp
qed

lemma groq_only_log:
  "list_all (\<lambda>i. inv_provider i = ''groq'')
     (snd (generate v env \<lparr>body_prompt = JStr s, body_provider = JStr ''groq''\<rparr>)) \<and>
   length (snd (generate v env \<lparr>body_prompt = JStr s, body_provider = JStr ''groq''\<rparr>)) \<le> 1"
proof (cases "s = []")
  case True
  then show ?thesis
    by (simp add: generate_def)
next
  case False
  obtain res le log where tp: "try_providers v env s [''groq''] None = (res, le, log)"
    by (cases "try_providers v env s [''groq''] None")
  have "providersToTry (if JStr ''groq'' = JUndefined then JStr ''auto'' else JStr ''groq'') =
          Inr [''groq'']"
    by (simp add: groq_candidates)
  from generate_dispatch [OF False this tp]
  have log: "snd (generate v env \<lparr>body_prompt = JStr s, body_provider = JStr ''groq''\<rparr>) = log"
    by simp
  from log_subseq [of v env s "[''groq'']" None] tp
  have "subseq (map inv_provider log) [''groq'']"
    by simp
  from subseq_single [OF this] show ?thesis
    unfolding log by (simp add: list_all_iff)
qed

section \<open>The claims\<close>

text \<open>
  C1. An error of a model attempt that is not a "model unavailable" signal should leave
  the adapter at once, with no further model tried. The Groq and OpenAI adapters test
  the error before they go on; the Gemini adapter goes on after any error. With vendors
  whose Gemini refuses the API key on the first model (a message with neither \<open>model\<close>
  nor \<open>404\<close> in it) and answers on the second, the Gemini adapter asks the second model
  and returns its answer; the error never reaches the caller. With vendors whose Gemini
  is unreachable, the adapter asks all six models and throws \<open>All Gemini models failed\<close>.
\<close>

theorem gemini_swallows_fatal_error:
  "gemini_generate vendors_A apiKey ''gemini-2.0-flash-exp'' prompt =
     GeminiThrows (JsError (Some ''API key not valid'')) \<and>
   \<not> spec_model_unavailable None None (Some ''API key not valid'') \<and>
   gemini vendors_A prompt apiKey =
     (Inr \<lparr>result_text = ''hi'', model = ''gemini-1.5-flash-latest'', provider = ''gemini''\<rparr>,
      [''gemini-2.0-flash-exp'', ''gemini-1.5-flash-latest'']) \<and>
   gemini_generate vendors_B apiKey ''gemini-2.0-flash-exp'' prompt =
     GeminiThrows (JsError (Some ''fetch failed'')) \<and>
   \<not> spec_model_unavailable None None (Some ''fetch failed'') \<and>
   gemini vendors_B prompt apiKey =
     (Inl (JsError (Some ''All Gemini models failed'')), gemini_modelsToTry)"
proof -
  have "\<not> spec_model_unavailable None None (Some ''API key not valid'')"
    and "\<not> spec_model_unavailable None None (Some ''fetch failed'')"
    by (simp_all add: spec_model_unavailable_def str_includes_def sublist_Cons_right)
  moreover have "gemini vendors_A prompt apiKey =
     (Inr \<lparr>result_text = ''hi'', model = ''gemini-1.5-flash-latest'', provider = ''gemini''\<rparr>,
      [''gemini-2.0-flash-exp'', ''gemini-1.5-flash-latest''])"
    by (simp add: gemini_def gemini_modelsToTry_def vendors_A_def attempted_def trim_def
        is_ws_def)
  moreover have "gemini_generate vendors_A apiKey ''gemini-2.0-flash-exp'' prompt =
     GeminiThrows (JsError (Some ''API key not valid''))"
    by (simp add: vendors_A_def)
  moreover have "gemini_generate vendors_B apiKey ''gemini-2.0-flash-exp'' prompt =
     GeminiThrows (JsError (Some ''fetch failed''))"
    by (simp add: vendors_B_def)
  moreover note vendors_B_runs(3) [of prompt apiKey]
  ultimately show ?thesis
    by (intro conjI)
qed

text \<open>
  C2. Every result of an adapter should carry a text that is not empty and is its own
  trimmed form. The Groq, Gemini and OpenAI adapters test \<open>text && text.trim()\<close>; the
  Claude adapter tests \<open>!text\<close> only and trims afterwards. When Claude answers with a
  single blank, the adapter returns the empty text as a success, and the endpoint sends
  it with status 200.
\<close>

theorem claude_returns_empty_text:
  "claude_fetch vendors_A apiKey prompt = ClaudeOk (Some '' '') \<and>
   claude vendors_A prompt apiKey =
     (Inr \<lparr>result_text = [], model = ''claude-3-haiku-20240307'', provider = ''claude''\<rparr>,
      [''claude-3-haiku-20240307'']) \<and>
   generate vendors_A env_claude_only \<lparr>body_prompt = JStr ''p'', body_provider = JUndefined\<rparr> =
     (\<lparr>status = 200,
       json = GenerateJson [Candidate (Content [Part []])] ''claude''
                ''claude-3-haiku-20240307''\<rparr>,
      [\<lparr>inv_provider = ''claude'', inv_apiKey = ''sk-ant'',
        inv_calls = [''claude-3-haiku-20240307''],
        inv_outcome = Inr \<lparr>result_text = [], model = ''claude-3-haiku-20240307'',
                           provider = ''claude''\<rparr>\<rparr>])"
  by (simp add: generate_def providersToTry_def try_providers.simps switch_apiKey_def js_or_def
      env_claude_only_def aiProviders_def claude_vendors_A)
     (simp add: vendors_A_def)

text \<open>
  C3. A request whose prompt is missing or empty (or any other falsy value) is answered
  with status 400 and the error \<open>Missing prompt in request body\<close>; the list of adapter
  calls is empty, so no adapter ran and no request went out to a vendor.
\<close>

theorem missing_prompt_rejected:
  "\<not> js_truthy (body_prompt body) \<Longrightarrow>
   generate v env body =
     (\<lparr>status = 400, json = ErrorJson ''Missing prompt in request body''\<rparr>, [])"
  by (simp add: generate_def Let_def)

theorem missing_prompt_rejected_witness:
  "generate vendors_A env_claude_only \<lparr>body_prompt = JUndefined, body_provider = JUndefined\<rparr> =
     (\<lparr>status = 400, json = ErrorJson ''Missing prompt in request body''\<rparr>, []) \<and>
   generate vendors_A env_claude_only \<lparr>body_prompt = JStr [], body_provider = JStr ''claude''\<rparr> =
     (\<lparr>status = 400, json = ErrorJson ''Missing prompt in request body''\<rparr>, [])"
  using missing_prompt_rejected
          [of "\<lparr>body_prompt = JUndefined, body_provider = JUndefined\<rparr>" vendors_A env_claude_only]
        missing_prompt_rejected
          [of "\<lparr>body_prompt = JStr [], body_provider = JStr ''claude''\<rparr>" vendors_A env_claude_only]
  by simp

text \<open>
  C4. When the provider preference is absent or \<open>auto\<close> (and the prompt is a non-empty
  string), the adapter calls of the dispatch are exactly: the calls for those of groq,
  openai, gemini, claude, in this order, whose credential resolves, up to and including
  the first call that succeeds. So the providers called form a subsequence of the fixed
  chain (each at most once, in order), every call but the last failed, and when the last
  call succeeded the response is built from its result.
\<close>

theorem auto_chain_first_success:
  assumes "pref = JUndefined \<or> pref = JStr ''auto''"
    and "p \<noteq> []"
    and "generate v env \<lparr>body_prompt = JStr p, body_provider = pref\<rparr> = (resp, log)"
  shows "log = until_success
                 (List.map_filter (invoke v env p) [''groq'', ''openai'', ''gemini'', ''claude'']) \<and>
         subseq (map inv_provider log) [''groq'', ''openai'', ''gemini'', ''claude''] \<and>
         distinct (map inv_provider log) \<and>
         list_all failed (butlast log) \<and>
         (\<forall>r. log \<noteq> [] \<and> inv_outcome (last log) = Inr r \<longrightarrow>
            resp = \<lparr>status = 200,
                    json = GenerateJson [Candidate (Content [Part (result_text r)])]
                             (provider r) (model r)\<rparr>)"
proof -
  let ?chain = "[''groq'', ''openai'', ''gemini'', ''claude'']"
  obtain res le log' where tp: "try_providers v env p ?chain None = (res, le, log')"
    by (cases "try_providers v env p ?chain None")
  note g = generate_dispatch [OF assms(2) chain_candidates [OF assms(1)] tp]
  from g assms(3) have log: "log' = log"
    and resp: "resp = (case res of
         None \<Rightarrow> \<lparr>status = 500, json = ErrorJson (all_failed_message le)\<rparr>
       | Some r \<Rightarrow> \<lparr>status = 200,
                     json = GenerateJson [Candidate (Content [Part (result_text r)])]
                              (provider r) (model r)\<rparr>)"
    by simp_all
  have 1: "log = until_success (List.map_filter (invoke v env p) ?chain)"
    using try_providers_log [of v env p ?chain None] tp log by simp
  have 2: "subseq (map inv_provider log) ?chain"
    using log_subseq [of v env p ?chain None] tp log by simp
  from 2 have "map inv_provider log \<in> set (subseqs ?chain)"
    by (simp only: in_set_subseqs)
  then have 3: "distinct (map inv_provider log)"
    by (rule subseqs_distinctD) simp
  note r = try_providers_result [OF tp [unfolded log]]
  have 4: "\<forall>r. log \<noteq> [] \<and> inv_outcome (last log) = Inr r \<longrightarrow>
            resp = \<lparr>status = 200,
                    json = GenerateJson [Candidate (Content [Part (result_text r)])]
                             (provider r) (model r)\<rparr>"
  proof (cases res)
    case None
    with r have "list_all failed log" by simp
    then have "log \<noteq> [] \<longrightarrow> failed (last log)"
      by (simp add: list_all_iff)
    then show ?thesis by (auto simp: failed_def)
  next
    case (Some r')
    with r resp show ?thesis by auto
  qed
  from 1 2 3 r 4 show ?thesis by blast
qed

theorem auto_chain_first_success_witness:
  "snd (generate vendors_B env_all request_auto) =
     until_success (List.map_filter (invoke vendors_B env_all ''p'')
                      [''groq'', ''openai'', ''gemini'', ''claude'']) \<and>
   map inv_provider (snd (generate vendors_B env_all request_auto)) =
     [''groq'', ''openai'', ''gemini'', ''claude''] \<and>
   subseq (map inv_provider (snd (generate vendors_B env_all request_auto)))
     [''groq'', ''openai'', ''gemini'', ''claude''] \<and>
   list_all failed (butlast (snd (generate vendors_B env_all request_auto))) \<and>
   fst (generate vendors_B env_all request_auto) =
     \<lparr>status = 200,
      json = GenerateJson [Candidate (Content [Part ''Hello.''])] ''claude''
               ''claude-3-haiku-20240307''\<rparr>"
proof -
  let ?chain = "[''groq'', ''openai'', ''gemini'', ''claude'']"
  let ?L = "snd (generate vendors_B env_all request_auto)"
  have h1: "JUndefined = JUndefined \<or> JUndefined = JStr ''auto''"
    by simp
  have h2: "''p'' \<noteq> []"
    by simp
  have h3: "generate vendors_B env_all \<lparr>body_prompt = JStr ''p'', body_provider = JUndefined\<rparr> =
              (fst (generate vendors_B env_all request_auto), ?L)"
    by (simp add: request_auto_def)
  note t = auto_chain_first_success [OF h1 h2 h3]
  from t have c1: "?L = until_success (List.map_filter (invoke vendors_B env_all ''p'') ?chain)"
    by (rule conjunct1)
  from t have c2: "subseq (map inv_provider ?L) ?chain"
    by blast
  from t have c3: "list_all failed (butlast ?L)"
    by blast
  have c4: "map inv_provider ?L = ?chain"
    by (simp add: generate_B_all)
  have c5: "fst (generate vendors_B env_all request_auto) =
     \<lparr>status = 200,
      json = GenerateJson [Candidate (Content [Part ''Hello.''])] ''claude''
               ''claude-3-haiku-20240307''\<rparr>"
    by (simp add: generate_B_all)
  from c1 c4 c2 c3 c5 show ?thesis
    by (intro conjI)
qed

text \<open>
  C5. Every adapter call of a dispatch was made for a provider whose credential resolves
  (the first non-empty value among the names the provider accepts), and with that
  credential. A candidate whose credential does not resolve is passed over: the loop
  goes on with the rest of the candidates and the same \<open>lastError\<close>, no call is made and
  no error is recorded.
\<close>

theorem credential_gate:
  "(\<forall>i \<in> set (snd (generate v env body)).
      resolve_credential env (inv_provider i) = Some (inv_apiKey i) \<and> inv_apiKey i \<noteq> []) \<and>
   (resolve_credential env n = None \<longrightarrow>
      try_providers v env p (n # rest) lastError = try_providers v env p rest lastError)"
proof (intro conjI ballI impI)
  fix i
  assume i: "i \<in> set (snd (generate v env body))"
  with generate_cases [of v env body]
  obtain q names where "i \<in> set (snd (snd (try_providers v env q names None)))"
    by auto
  then have "invoke v env q (inv_provider i) = Some i"
    by (simp add: log_invoked)
  then have c: "resolve_credential env (inv_provider i) = Some (inv_apiKey i)"
    by (rule invoke_credential)
  then show "resolve_credential env (inv_provider i) = Some (inv_apiKey i)" .
  from c show "inv_apiKey i \<noteq> []"
    by (rule resolve_credential_nonempty)
next
  assume "resolve_credential env n = None"
  then show "try_providers v env p (n # rest) lastError = try_providers v env p rest lastError"
    by (simp add: try_providers_Cons invoke_no_credential)
qed

theorem credential_gate_witness:
  "list_all (\<lambda>i. resolve_credential env_all (inv_provider i) = Some (inv_apiKey i) \<and>
                 inv_apiKey i \<noteq> [])
     (snd (generate vendors_B env_all request_auto)) \<and>
   map inv_apiKey (snd (generate vendors_B env_all request_auto)) =
     [''gsk'', ''sk-oa'', ''bard'', ''sk-ant''] \<and>
   resolve_credential env_claude_only ''groq'' = None \<and>
   try_providers vendors_A env_claude_only ''p'' [''groq'', ''claude''] None =
     try_providers vendors_A env_claude_only ''p'' [''claude''] None"
proof -
  note t = credential_gate [where v = vendors_B and env = env_all and body = request_auto]
  note u = credential_gate [where v = vendors_A and env = env_claude_only and n = "''groq''"
             and p = "''p''" and rest = "[''claude'']" and lastError = None]
  have h: "resolve_credential env_claude_only ''groq'' = None"
    by (simp add: resolve_credential_def credential_names_def env_claude_only_def)
  from t have c1: "list_all (\<lambda>i. resolve_credential env_all (inv_provider i) = Some (inv_apiKey i) \<and>
                 inv_apiKey i \<noteq> []) (snd (generate vendors_B env_all request_auto))"
    unfolding list_all_iff by (rule conjunct1)
  have c2: "map inv_apiKey (snd (generate vendors_B env_all request_auto)) =
     [''gsk'', ''sk-oa'', ''bard'', ''sk-ant'']"
    by (simp add: generate_B_all)
  from u h have c3: "try_providers vendors_A env_claude_only ''p'' [''groq'', ''claude''] None =
     try_providers vendors_A env_claude_only ''p'' [''claude''] None"
    by blast
  from c1 c2 h c3 show ?thesis
    by (intro conjI)
qed





text \<open>
  C6. As stated, with "model-not-found-shaped" read as the specification defines the
  signal (\<open>spec_model_unavailable\<close>), the claim fails for OpenAI: a response that is not
  ok whose message merely contains \<open>model\<close> is thrown, and the next model is never asked.
\<close>

theorem model_fallback_counterexample:
  "openai_fetch vendors_B ''k'' (openai_modelsToTry ! 0) ''p'' =
     OpenaiNotOk 400 None (Some ''Unsupported model parameter'') \<and>
   spec_model_unavailable (Some 400) None (Some ''Unsupported model parameter'') \<and>
   openai_spec_shaped (openai_fetch vendors_B ''k'' (openai_modelsToTry ! 0) ''p'') \<and>
   openai_fetch vendors_B ''k'' (openai_modelsToTry ! Suc 0) ''p'' = OpenaiOk (Some ''hi'') \<and>
   trim ''hi'' \<noteq> [] \<and>
   openai vendors_B ''p'' ''k'' =
     (Inl (JsError (Some ''Unsupported model parameter'')), [''gpt-4'']) \<and>
   openai vendors_B ''p'' ''k'' \<noteq>
     (Inr \<lparr>result_text = trim ''hi'', model = openai_modelsToTry ! Suc 0, provider = ''openai''\<rparr>,
      take (Suc (Suc 0)) openai_modelsToTry)"
  by (simp add: vendors_B_runs trim_samples)
     (simp add: vendors_B_def openai_modelsToTry_def openai_spec_shaped_def
       spec_model_unavailable_def str_includes_def sublist_Cons_right)

text \<open>
  C6, amended. For each adapter with a list of models: if each of the first \<open>N\<close> models
  gets a model-not-found-shaped error and the next model answers a text whose trimmed
  form is not empty, the adapter returns that trimmed text under that model's name,
  having asked exactly the first \<open>N + 1\<close> models; no error comes out. For Groq and Gemini
  the shape is the one of the specification on the message of the thrown error (\<open>model\<close>
  or \<open>404\<close> in it: \<open>groq_recovers\<close>, \<open>gemini_spec_shaped\<close>). For OpenAI it is the narrower
  one of its own test (\<open>openai_recovers\<close>): a response that is not ok, whose body was read,
  with status 404 or code \<open>model_not_found\<close>, or an error raised in the attempt whose
  message contains \<open>model_not_found\<close> or \<open>404\<close>. Nothing is said here of any other error.
\<close>

theorem model_fallback_recovers:
  assumes "trim t \<noteq> []"
  shows "(N < length groq_modelsToTry \<and>
          (\<forall>i<N. groq_recovers (groq_create v k (groq_modelsToTry ! i) p)) \<and>
          groq_create v k (groq_modelsToTry ! N) p = GroqChat (Some t) \<longrightarrow>
          groq v p k =
            (Inr \<lparr>result_text = trim t, model = groq_modelsToTry ! N, provider = ''groq''\<rparr>,
             take (Suc N) groq_modelsToTry)) \<and>
         (N < length gemini_modelsToTry \<and>
          (\<forall>i<N. gemini_spec_shaped (gemini_generate v k (gemini_modelsToTry ! i) p)) \<and>
          gemini_generate v k (gemini_modelsToTry ! N) p = GeminiText t \<longrightarrow>
          gemini v p k =
            (Inr \<lparr>result_text = trim t, model = gemini_modelsToTry ! N, provider = ''gemini''\<rparr>,
             take (Suc N) gemini_modelsToTry)) \<and>
         (N < length openai_modelsToTry \<and>
          (\<forall>i<N. openai_recovers (openai_fetch v k (openai_modelsToTry ! i) p)) \<and>
          openai_fetch v k (openai_modelsToTry ! N) p = OpenaiOk (Some t) \<longrightarrow>
          openai v p k =
            (Inr \<lparr>result_text = trim t, model = openai_modelsToTry ! N, provider = ''openai''\<rparr>,
             take (Suc N) openai_modelsToTry))"
proof (intro conjI impI)
  let ?ms = groq_modelsToTry
  assume a: "N < length ?ms \<and>
          (\<forall>i<N. groq_recovers (groq_create v k (?ms ! i) p)) \<and>
          groq_create v k (?ms ! N) p = GroqChat (Some t)"
  then have "\<forall>m \<in> set (take N ?ms). groq_recovers (groq_create v k m p)"
    by (auto simp: in_set_conv_nth)
  from groq_loop_recovers [of "take N ?ms" "\<lambda>m. groq_create v k m p" "?ms ! N" t "drop (Suc N) ?ms",
         OF this _ assms] a
  have "groq_loop (\<lambda>m. groq_create v k m p) (take N ?ms @ ?ms ! N # drop (Suc N) ?ms) =
          (Inr \<lparr>result_text = trim t, model = ?ms ! N, provider = ''groq''\<rparr>, take N ?ms @ [?ms ! N])"
    by simp
  with a show "groq v p k =
            (Inr \<lparr>result_text = trim t, model = ?ms ! N, provider = ''groq''\<rparr>, take (Suc N) ?ms)"
    unfolding groq_def by (simp only: take_Suc_conv_app_nth id_take_nth_drop [symmetric])
next
  let ?ms = gemini_modelsToTry
  assume a: "N < length ?ms \<and>
          (\<forall>i<N. gemini_spec_shaped (gemini_generate v k (?ms ! i) p)) \<and>
          gemini_generate v k (?ms ! N) p = GeminiText t"
  then have "\<forall>m \<in> set (take N ?ms). gemini_spec_shaped (gemini_generate v k m p)"
    by (auto simp: in_set_conv_nth)
  from gemini_loop_recovers [of "take N ?ms" "\<lambda>m. gemini_generate v k m p" "?ms ! N" t "drop (Suc N) ?ms",
         OF this _ assms] a
  have "gemini_loop (\<lambda>m. gemini_generate v k m p) (take N ?ms @ ?ms ! N # drop (Suc N) ?ms) =
          (Inr \<lparr>result_text = trim t, model = ?ms ! N, provider = ''gemini''\<rparr>, take N ?ms @ [?ms ! N])"
    by simp
  with a show "gemini v p k =
            (Inr \<lparr>result_text = trim t, model = ?ms ! N, provider = ''gemini''\<rparr>, take (Suc N) ?ms)"
    unfolding gemini_def by (simp only: take_Suc_conv_app_nth id_take_nth_drop [symmetric])
next
  let ?ms = openai_modelsToTry
  assume a: "N < length ?ms \<and>
          (\<forall>i<N. openai_recovers (openai_fetch v k (?ms ! i) p)) \<and>
          openai_fetch v k (?ms ! N) p = OpenaiOk (Some t)"
  then have "\<forall>m \<in> set (take N ?ms). openai_recovers (openai_fetch v k m p)"
    by (auto simp: in_set_conv_nth)
  from openai_loop_recovers [of "take N ?ms" "\<lambda>m. openai_fetch v k m p" "?ms ! N" t "drop (Suc N) ?ms",
         OF this _ assms] a
  have "openai_loop (\<lambda>m. openai_fetch v k m p) (take N ?ms @ ?ms ! N # drop (Suc N) ?ms) =
          (Inr \<lparr>result_text = trim t, model = ?ms ! N, provider = ''openai''\<rparr>, take N ?ms @ [?ms ! N])"
    by simp
  with a show "openai v p k =
            (Inr \<lparr>result_text = trim t, model = ?ms ! N, provider = ''openai''\<rparr>, take (Suc N) ?ms)"
    unfolding openai_def by (simp only: take_Suc_conv_app_nth id_take_nth_drop [symmetric])
qed

theorem model_fallback_recovers_witness:
  "groq vendors_C ''p'' ''k'' =
     (Inr \<lparr>result_text = ''hello'', model = ''llama-3.1-70b-versatile'', provider = ''groq''\<rparr>,
      [''llama-3.1-8b-instant'', ''llama-3.1-70b-versatile'']) \<and>
   gemini vendors_C ''p'' ''k'' =
     (Inr \<lparr>result_text = ''hi'', model = ''gemini-1.5-flash-latest'', provider = ''gemini''\<rparr>,
      [''gemini-2.0-flash-exp'', ''gemini-1.5-flash-latest'']) \<and>
   openai vendors_C ''p'' ''k'' =
     (Inr \<lparr>result_text = ''hi'', model = ''gpt-3.5-turbo'', provider = ''openai''\<rparr>,
      [''gpt-4'', ''gpt-3.5-turbo''])"
proof -
  have t1: "trim '' hello '' \<noteq> []" and t2: "trim ''hi'' \<noteq> []"
    by (simp_all add: trim_samples)
  note g = model_fallback_recovers [OF t1, of "Suc 0" vendors_C "''k''" "''p''"]
  note h = model_fallback_recovers [OF t2, of "Suc 0" vendors_C "''k''" "''p''"]
  have first: "\<forall>i<Suc 0. groq_recovers (groq_create vendors_C ''k'' (groq_modelsToTry ! i) ''p'')"
      "\<forall>i<Suc 0. gemini_spec_shaped (gemini_generate vendors_C ''k'' (gemini_modelsToTry ! i) ''p'')"
      "\<forall>i<Suc 0. openai_recovers (openai_fetch vendors_C ''k'' (openai_modelsToTry ! i) ''p'')"
    by (simp_all add: vendors_C_first_replies)
  have len: "Suc 0 < length groq_modelsToTry" "Suc 0 < length gemini_modelsToTry"
      "Suc 0 < length openai_modelsToTry"
    by (simp_all add: groq_modelsToTry_def gemini_modelsToTry_def openai_modelsToTry_def)
  from g len(1) first(1) vendors_C_second_replies(1) [of "''k''" "''p''"]
  have "groq vendors_C ''p'' ''k'' =
     (Inr \<lparr>result_text = trim '' hello '', model = groq_modelsToTry ! Suc 0, provider = ''groq''\<rparr>,
      take (Suc (Suc 0)) groq_modelsToTry)"
    by blast
  then have c1: "groq vendors_C ''p'' ''k'' =
     (Inr \<lparr>result_text = ''hello'', model = ''llama-3.1-70b-versatile'', provider = ''groq''\<rparr>,
      [''llama-3.1-8b-instant'', ''llama-3.1-70b-versatile''])"
    by (simp add: trim_samples groq_modelsToTry_def)
  from h len(2) first(2) vendors_C_second_replies(2) [of "''k''" "''p''"]
  have "gemini vendors_C ''p'' ''k'' =
     (Inr \<lparr>result_text = trim ''hi'', model = gemini_modelsToTry ! Suc 0, provider = ''gemini''\<rparr>,
      take (Suc (Suc 0)) gemini_modelsToTry)"
    by blast
  then have c2: "gemini vendors_C ''p'' ''k'' =
     (Inr \<lparr>result_text = ''hi'', model = ''gemini-1.5-flash-latest'', provider = ''gemini''\<rparr>,
      [''gemini-2.0-flash-exp'', ''gemini-1.5-flash-latest''])"
    by (simp add: trim_samples gemini_modelsToTry_def)
  from h len(3) first(3) vendors_C_second_replies(3) [of "''k''" "''p''"]
  have "openai vendors_C ''p'' ''k'' =
     (Inr \<lparr>result_text = trim ''hi'', model = openai_modelsToTry ! Suc 0, provider = ''openai''\<rparr>,
      take (Suc (Suc 0)) openai_modelsToTry)"
    by blast
  then have c3: "openai vendors_C ''p'' ''k'' =
     (Inr \<lparr>result_text = ''hi'', model = ''gpt-3.5-turbo'', provider = ''openai''\<rparr>,
      [''gpt-4'', ''gpt-3.5-turbo''])"
    by (simp add: trim_samples openai_modelsToTry_def)
  from c1 c2 c3 show ?thesis
    by (intro conjI)
qed

text \<open>
  C9. In every state \<open>c\<close> the client can reach from its initial state, by calls and by
  the settling of \<open>fetch\<close> and of \<open>response.text()\<close> in any order: the flag is set exactly
  while a call is suspended, at most one is, and it waits for \<open>fetch\<close> or for the body.
  A call made while the flag is set only delivers the \<open>Please wait\<close> error: no request is
  issued and the flag stays as it is. A call made while the flag is clear is let in: with
  a string as prompt it sets the flag and issues its request (so the flag is set all the
  time the request is out); with any other prompt it fails at once and leaves the flag
  clear. The call that waits for \<open>fetch\<close> ends with the flag clear when \<open>fetch\<close> is
  rejected, and goes on to wait for the body when it resolves. The call that waits for
  the body ends with the flag clear whatever comes: a rejected \<open>response.text()\<close>, a body
  that makes the rest of the function throw, or one that makes it return. So the flag
  is clear after every call that has settled, and the next call is let in.
\<close>

theorem single_flight:
  assumes "c = run JSON_parse client_init events"
  shows "(inFlight c \<longleftrightarrow> suspended c \<noteq> []) \<and> length (suspended c) \<le> 1 \<and>
         (inFlight c \<longrightarrow>
            suspended c = [AwaitingFetch] \<or> (\<exists>response. suspended c = [AwaitingText response])) \<and>
         (inFlight c \<longrightarrow>
            call c prompt provider_arg =
              c\<lparr>settled := settled c @
                   [Inl (new_Error ''Please wait for the current AI request to finish.'')]\<rparr>) \<and>
         (\<not> inFlight c \<longrightarrow>
            inFlight (call c (JStr s) provider_arg) \<and>
            settled (call c (JStr s) provider_arg) = settled c \<and>
            requests (call c (JStr s) provider_arg) =
              requests c @
              [\<lparr>url = ''/api/ai/generate'', http_method = ''POST'',
                sent = \<lparr>body_prompt = JStr s,
                         body_provider = (if provider_arg = JUndefined then JStr ''groq''
                                          else provider_arg)\<rparr>\<rparr>]) \<and>
         (\<not> inFlight c \<and> (\<forall>s. prompt \<noteq> JStr s) \<longrightarrow>
            call c prompt provider_arg =
              c\<lparr>inFlight := False,
                settled := settled c @ [Inl (substring_TypeError prompt)]\<rparr>) \<and>
         (suspended c = [AwaitingFetch] \<longrightarrow>
            step JSON_parse c (FetchSettles (Inl fetchError)) =
              c\<lparr>inFlight := False, suspended := [],
                settled := settled c @
                  [Inl (new_Error
                     (''Network error: '' @
                      (case message fetchError of None \<Rightarrow> ''undefined'' | Some m \<Rightarrow> m) @
                      ''. Please check if the server is running on http://localhost:5000''))]\<rparr> \<and>
            step JSON_parse c (FetchSettles (Inr response)) =
              c\<lparr>suspended := [AwaitingText response]\<rparr>) \<and>
         (suspended c = [AwaitingText response] \<longrightarrow>
            step JSON_parse c (TextSettles outcome) =
              c\<lparr>inFlight := False, suspended := [],
                settled := settled c @
                  [case outcome of
                     Inl err \<Rightarrow> Inl err
                   | Inr responseText \<Rightarrow> after_text JSON_parse response responseText]\<rparr>) \<and>
         ((\<forall>p a. ev \<noteq> Call p a) \<and> settled (step JSON_parse c ev) \<noteq> settled c \<longrightarrow>
            \<not> inFlight (step JSON_parse c ev))"
proof -
  have inv: "single_flight_inv c"
    unfolding assms by (rule inv_run) (rule inv_init)
  then have 1: "(inFlight c \<longleftrightarrow> suspended c \<noteq> []) \<and> length (suspended c) \<le> 1"
    by (simp add: single_flight_inv_def)
  have 2: "inFlight c \<longrightarrow>
            suspended c = [AwaitingFetch] \<or> (\<exists>response. suspended c = [AwaitingText response])"
    using inv_pending [OF inv] by blast
  have 3: "inFlight c \<longrightarrow>
            call c prompt provider_arg =
              c\<lparr>settled := settled c @
                   [Inl (new_Error ''Please wait for the current AI request to finish.'')]\<rparr>"
    by (simp add: call_def)
  have 4: "\<not> inFlight c \<longrightarrow>
            inFlight (call c (JStr s) provider_arg) \<and>
            settled (call c (JStr s) provider_arg) = settled c \<and>
            requests (call c (JStr s) provider_arg) =
              requests c @
              [\<lparr>url = ''/api/ai/generate'', http_method = ''POST'',
                sent = \<lparr>body_prompt = JStr s,
                         body_provider = (if provider_arg = JUndefined then JStr ''groq''
                                          else provider_arg)\<rparr>\<rparr>]"
    by (simp add: call_def Let_def)
  have 5: "\<not> inFlight c \<and> (\<forall>s. prompt \<noteq> JStr s) \<longrightarrow>
            call c prompt provider_arg =
              c\<lparr>inFlight := False,
                settled := settled c @ [Inl (substring_TypeError prompt)]\<rparr>"
    using call_not_a_string [of c prompt provider_arg] by blast
  have 6: "suspended c = [AwaitingFetch] \<longrightarrow>
            step JSON_parse c (FetchSettles (Inl fetchError)) =
              c\<lparr>inFlight := False, suspended := [],
                settled := settled c @
                  [Inl (new_Error
                     (''Network error: '' @
                      (case message fetchError of None \<Rightarrow> ''undefined'' | Some m \<Rightarrow> m) @
                      ''. Please check if the server is running on http://localhost:5000''))]\<rparr> \<and>
            step JSON_parse c (FetchSettles (Inr response)) =
              c\<lparr>suspended := [AwaitingText response]\<rparr>"
    using fetch_rejected [of c JSON_parse fetchError] fetch_resolved [of c JSON_parse response]
    by blast
  have 7: "suspended c = [AwaitingText response] \<longrightarrow>
            step JSON_parse c (TextSettles outcome) =
              c\<lparr>inFlight := False, suspended := [],
                settled := settled c @
                  [case outcome of
                     Inl err \<Rightarrow> Inl err
                   | Inr responseText \<Rightarrow> after_text JSON_parse response responseText]\<rparr>"
    using text_settled [of c response JSON_parse outcome] by blast
  have 8: "(\<forall>p a. ev \<noteq> Call p a) \<and> settled (step JSON_parse c ev) \<noteq> settled c \<longrightarrow>
            \<not> inFlight (step JSON_parse c ev)"
    using settle_clears [of ev JSON_parse c] by blast
  from 1 2 3 4 5 6 7 8 show ?thesis
    by (intro conjI) (simp_all only:)
qed

theorem single_flight_witness:
  "inFlight (run parse_sample client_init events_waiting) \<and>
   call (run parse_sample client_init events_waiting) (JStr ''q'') JUndefined =
     \<lparr>inFlight = True, suspended = [AwaitingFetch], requests = [request_p],
      settled = [Inl (JsError (Some ''Please wait for the current AI request to finish.''))]\<rparr> \<and>
   step parse_sample (run parse_sample client_init events_waiting)
     (FetchSettles (Inl (JsError (Some ''Failed to fetch'')))) =
     \<lparr>inFlight = False, suspended = [], requests = [request_p],
      settled = [Inl (JsError (Some ''Network error: Failed to fetch. Please check if the server is running on http://localhost:5000''))]\<rparr> \<and>
   step parse_sample (run parse_sample client_init events_waiting)
     (FetchSettles (Inr response_ok)) =
     \<lparr>inFlight = True, suspended = [AwaitingText response_ok], requests = [request_p],
      settled = []\<rparr> \<and>
   step parse_sample (run parse_sample client_init events_answered)
     (TextSettles (Inl (JsError (Some ''The user aborted a request.'')))) =
     \<lparr>inFlight = False, suspended = [], requests = [request_p],
      settled = [Inl (JsError (Some ''The user aborted a request.''))]\<rparr> \<and>
   step parse_sample (run parse_sample client_init events_answered) (TextSettles (Inr ''{}'')) =
     \<lparr>inFlight = False, suspended = [], requests = [request_p],
      settled = [Inl (JsError (Some ''No text generated. Please try again.''))]\<rparr> \<and>
   step parse_sample (run parse_sample client_init events_answered)
     (TextSettles (Inr body_success)) =
     \<lparr>inFlight = False, suspended = [], requests = [request_p], settled = [Inr ''hi'']\<rparr> \<and>
   call client_init JNull JUndefined =
     \<lparr>inFlight = False, suspended = [], requests = [],
      settled = [Inl (JsError (Some ''Cannot read properties of null (reading 'substring')''))]\<rparr> \<and>
   \<not> inFlight (run parse_sample client_init events_settled) \<and>
   inFlight (call (run parse_sample client_init events_settled) (JStr ''r'') (JStr ''auto'')) \<and>
   requests (call (run parse_sample client_init events_settled) (JStr ''r'') (JStr ''auto'')) =
     [request_p,
      \<lparr>url = ''/api/ai/generate'', http_method = ''POST'',
       sent = \<lparr>body_prompt = JStr ''r'', body_provider = JStr ''auto''\<rparr>\<rparr>]"
proof -
  let ?w = "run parse_sample client_init events_waiting"
  let ?a = "run parse_sample client_init events_answered"
  let ?s = "run parse_sample client_init events_settled"
  let ?i = "run parse_sample client_init []"
  note tw = single_flight [where c = ?w and JSON_parse = parse_sample and events = events_waiting
              and prompt = "JStr ''q''" and provider_arg = JUndefined
              and fetchError = "JsError (Some ''Failed to fetch'')" and response = response_ok,
              OF refl]
  note ta = single_flight [where c = ?a and JSON_parse = parse_sample and events = events_answered
              and response = response_ok, OF refl]
  note ts = single_flight [where c = ?s and JSON_parse = parse_sample and events = events_settled
              and provider_arg = "JStr ''auto''" and s = "''r''", OF refl]
  note ti = single_flight [where c = ?i and JSON_parse = parse_sample and events = "[]"
              and prompt = JNull and provider_arg = JUndefined, OF refl]
  have w1: "inFlight ?w"
    unfolding sample_waiting by simp
  have w2: "suspended ?w = [AwaitingFetch]"
    unfolding sample_waiting by simp
  from tw w1 have "call ?w (JStr ''q'') JUndefined =
      ?w\<lparr>settled := settled ?w @
             [Inl (new_Error ''Please wait for the current AI request to finish.'')]\<rparr>"
    by blast
  then have c1: "call ?w (JStr ''q'') JUndefined =
     \<lparr>inFlight = True, suspended = [AwaitingFetch], requests = [request_p],
      settled = [Inl (JsError (Some ''Please wait for the current AI request to finish.''))]\<rparr>"
    unfolding sample_waiting by (simp add: new_Error_def)
  from tw w2 have "step parse_sample ?w (FetchSettles (Inl (JsError (Some ''Failed to fetch'')))) =
      ?w\<lparr>inFlight := False, suspended := [],
          settled := settled ?w @
            [Inl (new_Error
               (''Network error: '' @
                (case message (JsError (Some ''Failed to fetch'')) of
                   None \<Rightarrow> ''undefined'' | Some m \<Rightarrow> m) @
                ''. Please check if the server is running on http://localhost:5000''))]\<rparr>"
    by blast
  then have c2: "step parse_sample ?w (FetchSettles (Inl (JsError (Some ''Failed to fetch'')))) =
     \<lparr>inFlight = False, suspended = [], requests = [request_p],
      settled = [Inl (JsError (Some ''Network error: Failed to fetch. Please check if the server is running on http://localhost:5000''))]\<rparr>"
    unfolding sample_waiting by (simp add: new_Error_def)
  from tw w2 have "step parse_sample ?w (FetchSettles (Inr response_ok)) =
      ?w\<lparr>suspended := [AwaitingText response_ok]\<rparr>"
    by blast
  then have c3: "step parse_sample ?w (FetchSettles (Inr response_ok)) =
     \<lparr>inFlight = True, suspended = [AwaitingText response_ok], requests = [request_p],
      settled = []\<rparr>"
    unfolding sample_waiting by simp
  have a2: "suspended ?a = [AwaitingText response_ok]"
    unfolding sample_answered by simp
  note body = ta [THEN conjunct2, THEN conjunct2, THEN conjunct2, THEN conjunct2,
                  THEN conjunct2, THEN conjunct2, THEN conjunct2, THEN conjunct1, rule_format,
                  OF a2]
  have c4: "step parse_sample ?a (TextSettles (Inl (JsError (Some ''The user aborted a request.'')))) =
     \<lparr>inFlight = False, suspended = [], requests = [request_p],
      settled = [Inl (JsError (Some ''The user aborted a request.''))]\<rparr>"
    by (subst body) (simp add: sample_answered)
  have c5: "step parse_sample ?a (TextSettles (Inr ''{}'')) =
     \<lparr>inFlight = False, suspended = [], requests = [request_p],
      settled = [Inl (JsError (Some ''No text generated. Please try again.''))]\<rparr>"
    by (subst body) (simp add: sample_answered after_text_samples)
  have c6: "step parse_sample ?a (TextSettles (Inr body_success)) =
     \<lparr>inFlight = False, suspended = [], requests = [request_p], settled = [Inr ''hi'']\<rparr>"
    by (subst body) (simp add: sample_answered after_text_samples)
  have i0: "?i = client_init"
    by (simp add: run_def)
  have "\<not> inFlight ?i \<and> (\<forall>s. JNull \<noteq> JStr s)"
    unfolding i0 by (simp add: client_init_def)
  with ti have "call ?i JNull JUndefined =
      ?i\<lparr>inFlight := False, settled := settled ?i @ [Inl (substring_TypeError JNull)]\<rparr>"
    by blast
  then have c7: "call client_init JNull JUndefined =
     \<lparr>inFlight = False, suspended = [], requests = [],
      settled = [Inl (JsError (Some ''Cannot read properties of null (reading 'substring')''))]\<rparr>"
    unfolding i0 by (simp add: client_init_def substring_TypeError_def new_Error_def)
  have s1: "\<not> inFlight ?s"
    unfolding sample_settled by simp
  with ts have c9: "inFlight (call ?s (JStr ''r'') (JStr ''auto''))"
    by blast
  from ts s1 have "requests (call ?s (JStr ''r'') (JStr ''auto'')) =
      requests ?s @
      [\<lparr>url = ''/api/ai/generate'', http_method = ''POST'',
        sent = \<lparr>body_prompt = JStr ''r'',
                 body_provider = (if JStr ''auto'' = JUndefined then JStr ''groq''
                                  else JStr ''auto'')\<rparr>\<rparr>]"
    by blast
  then have c10: "requests (call ?s (JStr ''r'') (JStr ''auto'')) =
     [request_p,
      \<lparr>url = ''/api/ai/generate'', http_method = ''POST'',
       sent = \<lparr>body_prompt = JStr ''r'', body_provider = JStr ''auto''\<rparr>\<rparr>]"
    unfolding sample_settled by simp
  from w1 c1 c2 c3 c4 c5 c6 c7 s1 c9 c10 show ?thesis
    by (intro conjI)
qed

text \<open>
  C10. A call of the client that leaves the provider argument out sends the body
  \<open>{prompt, provider: 'groq'}\<close>. For that preference the candidate list of the endpoint
  is the single name \<open>groq\<close>, and the dispatch makes at most one adapter call, to Groq.
  A provider argument that is given is sent as it is.
\<close>

theorem client_default_groq:
  assumes "\<not> inFlight c"
  shows "requests (call c (JStr s) JUndefined) =
           requests c @
           [\<lparr>url = ''/api/ai/generate'', http_method = ''POST'',
             sent = \<lparr>body_prompt = JStr s, body_provider = JStr ''groq''\<rparr>\<rparr>] \<and>
         providersToTry (JStr ''groq'') = Inr [''groq''] \<and>
         list_all (\<lambda>i. inv_provider i = ''groq'')
           (snd (generate v env \<lparr>body_prompt = JStr s, body_provider = JStr ''groq''\<rparr>)) \<and>
         length (snd (generate v env \<lparr>body_prompt = JStr s, body_provider = JStr ''groq''\<rparr>)) \<le> 1 \<and>
         (provider_arg \<noteq> JUndefined \<longrightarrow>
            body_provider (sent (last (requests (call c (JStr s) provider_arg)))) = provider_arg)"
  using assms groq_only_log [of v env s]
  by (simp add: call_def Let_def groq_candidates)

theorem client_default_groq_witness:
  "requests (call client_init (JStr ''p'') JUndefined) =
     [\<lparr>url = ''/api/ai/generate'', http_method = ''POST'',
       sent = \<lparr>body_prompt = JStr ''p'', body_provider = JStr ''groq''\<rparr>\<rparr>] \<and>
   list_all (\<lambda>i. inv_provider i = ''groq'') (snd (generate vendors_A env_all request_groq)) \<and>
   map inv_provider (snd (generate vendors_A env_all request_groq)) = [''groq''] \<and>
   body_provider (sent (last (requests (call client_init (JStr ''p'') (JStr ''auto''))))) =
     JStr ''auto''"
proof -
  have h: "\<not> inFlight client_init"
    by (simp add: client_init_def)
  note t = client_default_groq [OF h, of "''p''" vendors_A env_all "JStr ''auto''"]
  from t have c1: "requests (call client_init (JStr ''p'') JUndefined) =
     [\<lparr>url = ''/api/ai/generate'', http_method = ''POST'',
       sent = \<lparr>body_prompt = JStr ''p'', body_provider = JStr ''groq''\<rparr>\<rparr>]"
    by (simp add: client_init_def)
  from t have c2: "list_all (\<lambda>i. inv_provider i = ''groq'')
                     (snd (generate vendors_A env_all request_groq))"
    unfolding request_groq_def by blast
  have c3: "map inv_provider (snd (generate vendors_A env_all request_groq)) = [''groq'']"
    by (simp add: generate_def request_groq_def groq_candidates try_providers.simps
        switch_apiKey_def env_all_def aiProviders_def groq_def groq_modelsToTry_def
        vendors_A_def groq_model_unavailable_def str_includes_def sublist_Cons_right
        attempted_def trim_def is_ws_def)
  have "JStr ''auto'' \<noteq> JUndefined"
    by simp
  with t have c4: "body_provider (sent (last (requests (call client_init (JStr ''p'') (JStr ''auto''))))) =
     JStr ''auto''"
    by blast
  from c1 c2 c3 c4 show ?thesis
    by (intro conjI)
qed

end
